theory Spec2Isabelle
  imports Main
begin

section \<open>JavaScript values used by the pipeline\<close>

text \<open>
  A \<^verbatim>\<open>catch (error)\<close> clause binds whatever was thrown. The consumers test
  \<^verbatim>\<open>error instanceof Error\<close> before they read \<^verbatim>\<open>error.message\<close>, so the model keeps
  the two kinds of thrown value apart.
\<close>

datatype thrown = JsError string | JsValue string

text \<open>\<^verbatim>\<open>String.prototype.startsWith\<close> and \<^verbatim>\<open>String.prototype.includes\<close>.\<close>

fun startsWith :: "string \<Rightarrow> string \<Rightarrow> bool" where
  "startsWith s [] = True"
| "startsWith [] (c # cs) = False"
| "startsWith (x # xs) (c # cs) = (x = c \<and> startsWith xs cs)"

fun includes_str :: "string \<Rightarrow> string \<Rightarrow> bool" where
  "includes_str [] sub = (sub = [])"
| "includes_str (x # xs) sub = (startsWith (x # xs) sub \<or> includes_str xs sub)"

text \<open>
  Truthiness of a value of type \<^verbatim>\<open>string | undefined\<close> (or \<^verbatim>\<open>string | null\<close>):
  \<^verbatim>\<open>undefined\<close>, \<^verbatim>\<open>null\<close> and the empty string are falsy.
\<close>

fun truthy :: "string option \<Rightarrow> bool" where
  "truthy None = False"
| "truthy (Some s) = (s \<noteq> [])"

section \<open>Events (services/shared/types.ts)\<close>

text \<open>
  \<^verbatim>\<open>BaseEvent<T, P>\<close>. The timestamp is left out: no consumer reads it.
\<close>

record 'p event =
  eventId :: string
  eventType :: string
  version :: string
  source :: string
  correlationId :: "string option"
  payload :: 'p

record OrderItem =
  productId :: string
  variationId :: "string option"
  quantity :: int
  price :: int

record CheckoutCommandPayload =
  userId :: string
  customerName :: string
  customerEmail :: string
  customerAddress :: string
  items :: "OrderItem list"
  totalAmount :: int
  paymentId :: string

record EmailNotificationPayload =
  email_to :: string
  email_subject :: string
  email_templateId :: string
  email_priority :: string

text \<open>
  Payloads of the events the order pipeline publishes:
  \<^item> \<open>StockUpdate productId variationId previousStock newStock reason orderId\<close>
  \<^item> \<open>OrderCreated orderId userId items totalAmount status\<close>
  \<^item> \<open>EmailRequest to subject templateId priority\<close>
  \<^item> \<open>AuditLog action entityType entityId\<close>
\<close>

datatype out_payload =
    StockUpdate string "string option" int int string string
  | OrderCreated string string "OrderItem list" int string
  | EmailRequest string string string string
  | AuditLog string string string

datatype topic = COMMANDS | ORDERS | NOTIFICATIONS | INVENTORY | ANALYTICS

section \<open>The world the handlers run in\<close>

text \<open>
  The relational store holds the two order tables and the stock column of the
  product and variation tables (lib/schema). Neither stock column carries a
  check constraint, so a stock value is any integer.
\<close>

record order_row =
  order_id :: string
  order_userId :: string
  order_customerName :: string
  order_customerEmail :: string
  order_customerAddress :: string
  order_totalAmount :: int
  order_status :: string

record order_item_row =
  item_id :: string
  item_orderId :: string
  item_productId :: string
  item_variationId :: "string option"
  item_quantity :: int
  item_price :: int

record database =
  orders :: "order_row list"
  orderItems :: "order_item_row list"
  products :: "string \<rightharpoonup> int"
  productVariations :: "string \<rightharpoonup> int"

text \<open>
  The phase of the most recent database transaction; every publish call records
  the phase it was issued in.
\<close>

datatype tx_phase = NoTransaction | TxOpen | TxCommitted | TxRolledBack

datatype level = LOG | WARN | ERROR

datatype effect =
    Console level string
  | TxBegin
  | TxCommit
  | TxRollback
  | PublishCall topic tx_phase "out_payload event"
  | EmailSent string string

text \<open>
  Every call that leaves the process (a database statement, a Redis command, a
  QStash publish, an SMTP send) may throw. The world carries one script per
  resource: each call consumes the head of its script, \<open>Some e\<close> makes the call
  throw \<open>e\<close>, \<open>None\<close> and the empty script let it succeed.
  \<open>uuid_counter\<close> is the supply behind \<^verbatim>\<open>randomUUID()\<close>, and \<open>effects\<close> lists what
  the process did, oldest first. Redis expiry is not modelled: a key stays once
  it is set.
\<close>

record world =
  db :: database
  phase :: tx_phase
  redis_keys :: "string \<rightharpoonup> (string \<times> nat)"
  db_faults :: "thrown option list"
  redis_faults :: "thrown option list"
  publish_faults :: "thrown option list"
  smtp_configured :: bool
  smtp_faults :: "thrown option list"
  uuid_counter :: nat
  effects :: "effect list"

text \<open>An awaited computation: it ends in a thrown value or a result, and a new world.\<close>

type_synonym 'a io = "world \<Rightarrow> (thrown + 'a) \<times> world"

definition io_bind :: "'a io \<Rightarrow> ('a \<Rightarrow> 'b io) \<Rightarrow> 'b io" where
  "io_bind m f w = (case m w of (Inl e, w1) \<Rightarrow> (Inl e, w1) | (Inr x, w1) \<Rightarrow> f x w1)"

definition io_return :: "'a \<Rightarrow> 'a io" where
  "io_return x w = (Inr x, w)"

definition io_throw :: "thrown \<Rightarrow> 'a io" where
  "io_throw e w = (Inl e, w)"

text \<open>The outcome the next call on a resource takes from its script.\<close>

fun next_fault :: "thrown option list \<Rightarrow> thrown option \<times> thrown option list" where
  "next_fault [] = (None, [])"
| "next_fault (f # fs) = (f, fs)"

definition emit :: "effect \<Rightarrow> world \<Rightarrow> world" where
  "emit e w = w\<lparr>effects := effects w @ [e]\<rparr>"

definition console :: "level \<Rightarrow> string \<Rightarrow> world \<Rightarrow> world" where
  "console l msg w = emit (Console l msg) w"

definition io_log :: "level \<Rightarrow> string \<Rightarrow> unit io" where
  "io_log l msg w = (Inr (), console l msg w)"

text \<open>
  The \<open>n\<close>-th identifier drawn from the supply; distinct draws give distinct
  strings.
\<close>

definition uuid_string :: "nat \<Rightarrow> string" where
  "uuid_string n = ''uuid-'' @ replicate n (CHR ''i'')"

definition randomUUID :: "world \<Rightarrow> string \<times> world" where
  "randomUUID w = (uuid_string (uuid_counter w), w\<lparr>uuid_counter := Suc (uuid_counter w)\<rparr>)"

section \<open>Request deduplication (lib/deduplication.ts)\<close>

definition DEDUP_TTL_SECONDS :: nat where
  "DEDUP_TTL_SECONDS = 3600"

definition DEDUP_KEY_PREFIX :: string where
  "DEDUP_KEY_PREFIX = ''webhook:dedup:''"

text \<open>\<^verbatim>\<open>redis.exists(key)\<close>: the number of keys that exist, or a throw.\<close>

definition redis_exists :: "string \<Rightarrow> nat io" where
  "redis_exists key w =
     (case next_fault (redis_faults w) of
        (Some e, rest) \<Rightarrow> (Inl e, w\<lparr>redis_faults := rest\<rparr>)
      | (None, rest) \<Rightarrow>
          (Inr (if redis_keys w key = None then 0 else 1), w\<lparr>redis_faults := rest\<rparr>))"

text \<open>\<^verbatim>\<open>redis.setex(key, ttl, value)\<close>.\<close>

definition redis_setex :: "string \<Rightarrow> nat \<Rightarrow> string \<Rightarrow> unit io" where
  "redis_setex key ttl v w =
     (case next_fault (redis_faults w) of
        (Some e, rest) \<Rightarrow> (Inl e, w\<lparr>redis_faults := rest\<rparr>)
      | (None, rest) \<Rightarrow>
          (Inr (), w\<lparr>redis_keys := (redis_keys w)(key \<mapsto> (v, ttl)), redis_faults := rest\<rparr>))"

definition isEventProcessed :: "string \<Rightarrow> bool io" where
  "isEventProcessed evId w =
     (let key = DEDUP_KEY_PREFIX @ evId in
      case redis_exists key w of
        (Inr n, w1) \<Rightarrow> (Inr (n = 1), w1)
      | (Inl error, w1) \<Rightarrow>
          (Inr False, console ERROR ''[Deduplication] Redis check failed:'' w1))"

definition markEventProcessed :: "string \<Rightarrow> nat \<Rightarrow> unit io" where
  "markEventProcessed evId ttl w =
     (let key = DEDUP_KEY_PREFIX @ evId in
      case redis_setex key ttl ''1'' w of
        (Inr u, w1) \<Rightarrow> (Inr (), w1)
      | (Inl error, w1) \<Rightarrow>
          (Inr (), console ERROR ''[Deduplication] Failed to mark event as processed:'' w1))"

text \<open>The object \<^verbatim>\<open>{ processed, result? }\<close> that \<^verbatim>\<open>processWithDeduplication\<close> resolves to.\<close>

record 'a dedup_result =
  processed :: bool
  result :: "'a option"

definition processWithDeduplication :: "string \<Rightarrow> 'a io \<Rightarrow> 'a dedup_result io" where
  "processWithDeduplication evId processor w =
     (case isEventProcessed evId w of
        (Inl e, w1) \<Rightarrow> (Inl e, w1)
      | (Inr alreadyProcessed, w1) \<Rightarrow>
          if alreadyProcessed
          then (Inr \<lparr>processed = False, result = None\<rparr>,
                console LOG ''[Deduplication] Event already processed, skipping'' w1)
          else
            (case processor w1 of
               (Inl error, w2) \<Rightarrow> (Inl error, w2)
             | (Inr r, w2) \<Rightarrow>
                 (case markEventProcessed evId DEDUP_TTL_SECONDS w2 of
                    (Inl error, w3) \<Rightarrow> (Inl error, w3)
                  | (Inr u, w3) \<Rightarrow> (Inr \<lparr>processed = True, result = Some r\<rparr>, w3))))"

section \<open>Signature verification (lib/qstash-webhook.ts)\<close>

text \<open>The module the topic routes import as \<^verbatim>\<open>@/lib/qstash-webhook\<close>.\<close>

text \<open>
  What a handler reads of a \<^verbatim>\<open>NextRequest\<close>: the \<^verbatim>\<open>upstash-signature\<close> header and
  the raw body.
\<close>

record request =
  upstash_signature :: "string option"
  body :: string

text \<open>
  The process environment and the two library calls a consumer makes on the
  request: \<open>receiver_verify current next signature body\<close> is
  \<^verbatim>\<open>new Receiver({...}).verify({signature, body})\<close>, which throws or returns a value
  (the shared verifier returns that value as the event, the services that call
  the receiver inline read it as a boolean), and \<open>json_parse\<close> is
  \<^verbatim>\<open>request.json()\<close> / \<^verbatim>\<open>JSON.parse(body)\<close>, which throws on a body that does not
  parse.
\<close>

record ('v, 'e) env =
  currentSigningKey :: "string option"
  nextSigningKey :: "string option"
  NODE_ENV :: "string option"
  QSTASH_TOKEN :: "string option"
  receiver_verify :: "string \<Rightarrow> string \<Rightarrow> string \<Rightarrow> string \<Rightarrow> thrown + 'v"
  json_parse :: "string \<Rightarrow> thrown + 'e"

definition verifyQStashSignature :: "('e, 'e) env \<Rightarrow> request \<Rightarrow> 'e io" where
  "verifyQStashSignature ev request w =
     (if \<not> truthy (currentSigningKey ev) \<or> \<not> truthy (nextSigningKey ev)
      then
        (let w1 = console WARN
                    ''[QStash] Signing keys not configured - skipping verification (DEV mode)'' w
         in if NODE_ENV ev = Some ''development''
            then (json_parse ev (body request), w1)
            else (Inl (JsError ''QStash signing keys not configured''), w1))
      else if \<not> truthy (upstash_signature request)
      then (Inl (JsError ''Missing upstash-signature header''), w)
      else
        (case receiver_verify ev (the (currentSigningKey ev)) (the (nextSigningKey ev))
                (the (upstash_signature request)) (body request) of
           Inr verified \<Rightarrow> (Inr verified, w)
         | Inl error \<Rightarrow>
             (Inl (JsError ''Invalid webhook signature''),
              console ERROR ''[QStash] Signature verification failed:'' w)))"

section \<open>Publisher (lib/qstash-producer.ts)\<close>

definition createBaseEvent ::
  "string \<Rightarrow> out_payload \<Rightarrow> string \<Rightarrow> string option \<Rightarrow> world \<Rightarrow> out_payload event \<times> world" where
  "createBaseEvent evType pl src cid w =
     (case randomUUID w of
        (uuid, w1) \<Rightarrow>
          (\<lparr>eventId = uuid, eventType = evType, version = ''1.0'', source = src,
            correlationId = (if truthy cid then cid else None), payload = pl\<rparr>, w1))"

text \<open>
  \<^verbatim>\<open>publishEvent(topic, event)\<close>: \<^verbatim>\<open>qstash.publishJSON\<close> is called with the webhook
  URL of the topic; a failure is logged and thrown again. The publish call is
  recorded with the transaction phase it is issued in.
\<close>

definition publishEvent :: "topic \<Rightarrow> out_payload event \<Rightarrow> unit io" where
  "publishEvent tp event w =
     (case next_fault (publish_faults w) of
        (Some error, rest) \<Rightarrow>
          (Inl error,
           console ERROR ''[QStash] Failed to publish''
             (emit (PublishCall tp (phase w) event) (w\<lparr>publish_faults := rest\<rparr>)))
      | (None, rest) \<Rightarrow>
          (Inr (),
           console LOG ''[QStash] Published''
             (emit (PublishCall tp (phase w) event) (w\<lparr>publish_faults := rest\<rparr>))))"

definition publishOrderCreated :: "out_payload \<Rightarrow> string option \<Rightarrow> out_payload event io" where
  "publishOrderCreated pl cid w =
     (case createBaseEvent ''order.created'' pl ''orders-service'' cid w of
        (event, w1) \<Rightarrow> io_bind (publishEvent ORDERS event) (\<lambda>u. io_return event) w1)"

definition publishEmailNotification ::
  "out_payload \<Rightarrow> string option \<Rightarrow> out_payload event io" where
  "publishEmailNotification pl cid w =
     (case createBaseEvent ''notification.email'' pl ''orders-service'' cid w of
        (event, w1) \<Rightarrow> io_bind (publishEvent NOTIFICATIONS event) (\<lambda>u. io_return event) w1)"

definition publishStockUpdate :: "out_payload \<Rightarrow> string option \<Rightarrow> out_payload event io" where
  "publishStockUpdate pl cid w =
     (case createBaseEvent ''inventory.stock.updated'' pl ''orders-service'' cid w of
        (event, w1) \<Rightarrow> io_bind (publishEvent INVENTORY event) (\<lambda>u. io_return event) w1)"

definition publishAuditLog :: "out_payload \<Rightarrow> string option \<Rightarrow> out_payload event io" where
  "publishAuditLog pl cid w =
     (case createBaseEvent ''analytics.audit'' pl ''api'' cid w of
        (event, w1) \<Rightarrow> io_bind (publishEvent ANALYTICS event) (\<lambda>u. io_return event) w1)"

section \<open>The relational store (drizzle)\<close>

text \<open>
  One awaited statement of a transaction: it throws what the script says, or
  runs on the store.
\<close>

definition db_statement :: "(database \<Rightarrow> 'a \<times> database) \<Rightarrow> 'a io" where
  "db_statement run w =
     (case next_fault (db_faults w) of
        (Some error, rest) \<Rightarrow> (Inl error, w\<lparr>db_faults := rest\<rparr>)
      | (None, rest) \<Rightarrow>
          (Inr (fst (run (db w))), w\<lparr>db := snd (run (db w)), db_faults := rest\<rparr>))"

text \<open>\<^verbatim>\<open>tx.insert(orders).values(row).returning()\<close>\<close>

definition insert_order :: "order_row \<Rightarrow> database \<Rightarrow> order_row \<times> database" where
  "insert_order row d = (row, d\<lparr>orders := orders d @ [row]\<rparr>)"

text \<open>\<^verbatim>\<open>tx.insert(orderItems).values(rows)\<close>\<close>

definition insert_orderItems :: "order_item_row list \<Rightarrow> database \<Rightarrow> unit \<times> database" where
  "insert_orderItems rows d = ((), d\<lparr>orderItems := orderItems d @ rows\<rparr>)"

text \<open>
  \<^verbatim>\<open>tx.select().from(products).where(eq(products.id, pid))\<close>: the stock of the first
  row, if there is one.
\<close>

definition select_product :: "string \<Rightarrow> database \<Rightarrow> int option \<times> database" where
  "select_product pid d = (products d pid, d)"

text \<open>
  \<^verbatim>\<open>UPDATE ... SET stock = stock - qty WHERE id = ...\<close>: a row that does not exist
  is not an error, the statement then updates nothing.
\<close>

definition update_variation_stock :: "string \<Rightarrow> int \<Rightarrow> database \<Rightarrow> unit \<times> database" where
  "update_variation_stock vid qty d =
     ((), case productVariations d vid of
            None \<Rightarrow> d
          | Some s \<Rightarrow> d\<lparr>productVariations := (productVariations d)(vid \<mapsto> s - qty)\<rparr>)"

definition update_product_stock :: "string \<Rightarrow> int \<Rightarrow> database \<Rightarrow> unit \<times> database" where
  "update_product_stock pid qty d =
     ((), case products d pid of
            None \<Rightarrow> d
          | Some s \<Rightarrow> d\<lparr>products := (products d)(pid \<mapsto> s - qty)\<rparr>)"

text \<open>
  \<^verbatim>\<open>drizzleDb.transaction(callback)\<close>: when the callback throws, the store is put
  back to what it was when the transaction began and the thrown value is
  passed on; otherwise the transaction commits. What the callback did outside
  the store (publishes, identifiers drawn, log lines) stays done.
\<close>

definition transaction :: "'a io \<Rightarrow> 'a io" where
  "transaction callback w =
     (case callback (emit TxBegin (w\<lparr>phase := TxOpen\<rparr>)) of
        (Inr r, w1) \<Rightarrow> (Inr r, emit TxCommit (w1\<lparr>phase := TxCommitted\<rparr>))
      | (Inl error, w1) \<Rightarrow>
          (Inl error, emit TxRollback (w1\<lparr>db := db w, phase := TxRolledBack\<rparr>)))"

section \<open>Order processing (app/api/webhooks/commands/route.ts)\<close>

text \<open>\<^verbatim>\<open>items.map((item) => ({ id: randomUUID(), orderId: newOrder.id, ... }))\<close>\<close>

fun orderItemValues ::
  "string \<Rightarrow> OrderItem list \<Rightarrow> world \<Rightarrow> order_item_row list \<times> world" where
  "orderItemValues oid [] w = ([], w)"
| "orderItemValues oid (item # rest) w =
     (case randomUUID w of
        (uuid, w1) \<Rightarrow>
          (case orderItemValues oid rest w1 of
             (rows, w2) \<Rightarrow>
               (\<lparr>item_id = uuid, item_orderId = oid, item_productId = productId item,
                 item_variationId = (if truthy (variationId item) then variationId item else None),
                 item_quantity = quantity item, item_price = price item\<rparr> # rows, w2)))"

text \<open>
  A publish that is called and not awaited, with a \<^verbatim>\<open>.catch\<close> that logs: the call
  is issued where it stands, its failure reaches nobody.
\<close>

definition fire_and_forget :: "'a io \<Rightarrow> string \<Rightarrow> world \<Rightarrow> world" where
  "fire_and_forget call msg w =
     (case call w of
        (Inr r, w1) \<Rightarrow> w1
      | (Inl err, w1) \<Rightarrow> console ERROR msg w1)"

text \<open>
  Step 3 of the transaction callback, the loop \<^verbatim>\<open>for (const item of items)\<close>.
  \<open>publish_stock\<close> is the stock-update publish of the route at hand, applied to
  the payload the loop builds.
\<close>

fun decrement_stock ::
  "(out_payload \<Rightarrow> world \<Rightarrow> world) \<Rightarrow> string \<Rightarrow> OrderItem list \<Rightarrow> unit io" where
  "decrement_stock publish_stock oid [] w = (Inr (), w)"
| "decrement_stock publish_stock oid (item # rest) w =
     (case db_statement (select_product (productId item)) w of
        (Inl error, w1) \<Rightarrow> (Inl error, w1)
      | (Inr product, w1) \<Rightarrow>
          (let previousStock = (case product of Some s \<Rightarrow> s | None \<Rightarrow> 0) in
           case (if truthy (variationId item)
                 then db_statement (update_variation_stock (the (variationId item)) (quantity item)) w1
                 else (Inr (), w1)) of
             (Inl error, w2) \<Rightarrow> (Inl error, w2)
           | (Inr u, w2) \<Rightarrow>
               (case db_statement (update_product_stock (productId item) (quantity item)) w2 of
                  (Inl error, w3) \<Rightarrow> (Inl error, w3)
                | (Inr u', w3) \<Rightarrow>
                    decrement_stock publish_stock oid rest
                      (publish_stock
                         (StockUpdate (productId item) (variationId item) previousStock
                            (previousStock - quantity item) ''sale'' oid) w3))))"

text \<open>The callback passed to \<^verbatim>\<open>drizzleDb.transaction\<close>.\<close>

definition checkout_transaction ::
  "(out_payload \<Rightarrow> world \<Rightarrow> world) \<Rightarrow> CheckoutCommandPayload \<Rightarrow> order_row io" where
  "checkout_transaction publish_stock p w =
     (case randomUUID w of
        (uuid, w1) \<Rightarrow>
          io_bind
            (db_statement
               (insert_order
                  \<lparr>order_id = uuid, order_userId = userId p,
                    order_customerName = customerName p,
                    order_customerEmail = customerEmail p,
                    order_customerAddress = customerAddress p,
                    order_totalAmount = totalAmount p, order_status = ''PENDING''\<rparr>))
            (\<lambda>newOrder w2.
               case orderItemValues (order_id newOrder) (items p) w2 of
                 (rows, w3) \<Rightarrow>
                   io_bind (db_statement (insert_orderItems rows))
                     (\<lambda>u. io_bind (decrement_stock publish_stock (order_id newOrder) (items p))
                            (\<lambda>u'. io_return newOrder)) w3)
            w1)"

text \<open>\<^verbatim>\<open>event.correlationId || event.eventId\<close>\<close>

definition correlation_of :: "'p event \<Rightarrow> string" where
  "correlation_of event =
     (if truthy (correlationId event) then the (correlationId event) else eventId event)"

text \<open>The stock-update publish of the commands route.\<close>

definition commands_publish_stock :: "string \<Rightarrow> out_payload \<Rightarrow> world \<Rightarrow> world" where
  "commands_publish_stock cid pl =
     fire_and_forget (publishStockUpdate pl (Some cid))
       ''[Commands Webhook] Failed to publish stock update:''"

definition handleCheckoutCommand :: "CheckoutCommandPayload event \<Rightarrow> unit io" where
  "handleCheckoutCommand event =
     (let p = payload event; cid = correlation_of event in
      io_bind (io_log LOG ''[Commands Webhook] Processing checkout'')
        (\<lambda>u. io_bind (transaction (checkout_transaction (commands_publish_stock cid) p))
          (\<lambda>res.
             let orderPayload =
                   OrderCreated (order_id res) (userId p) (items p) (totalAmount p) ''PENDING''
             in
             io_bind (io_log LOG ''[Commands Webhook] Order created successfully'')
               (\<lambda>u. io_bind (publishOrderCreated orderPayload (Some cid))
                 (\<lambda>e1. io_bind (io_log LOG ''[Commands Webhook] Published order.created'')
                   (\<lambda>u. io_bind
                          (publishEmailNotification
                             (EmailRequest (customerEmail p)
                                (''Order Confirmation - '' @ order_id res)
                                ''order-confirmation'' ''high'') (Some cid))
                     (\<lambda>e2. io_bind
                             (io_log LOG ''[Commands Webhook] Requested email notification'')
                       (\<lambda>u. io_bind
                              (publishAuditLog
                                 (AuditLog ''order.created'' ''order'' (order_id res)) (Some cid))
                         (\<lambda>e3. io_return ())))))))))"

section \<open>Webhook consumers built on the shared verifier\<close>

text \<open>
  A response: its status and its JSON body,
  \<^item> \<open>SuccessEvent eventId eventType duplicate\<close> for
    \<^verbatim>\<open>{ success: true, eventId, eventType, duplicate? }\<close>,
  \<^item> \<open>SuccessMessage message\<close> for \<^verbatim>\<open>{ success: true, message }\<close>,
  \<^item> \<open>ErrorResponse error details\<close> for \<^verbatim>\<open>{ error, details? }\<close>.
  \<^verbatim>\<open>NextResponse.json(data)\<close> without a status is a 200.
\<close>

datatype response_body =
    SuccessEvent string string "bool option"
  | SuccessMessage string
  | ErrorResponse string "string option"

record response =
  status :: nat
  json :: response_body

text \<open>
  The status classes of section 6 of the specification: the queue is asked to
  retry by a 5xx answer, a 4xx answer is a permanent rejection.
\<close>

definition retry_worthy :: "response \<Rightarrow> bool" where
  "retry_worthy r = (500 \<le> status r \<and> status r < 600)"

definition permanent_rejection :: "response \<Rightarrow> bool" where
  "permanent_rejection r = (400 \<le> status r \<and> status r < 500)"

text \<open>\<^verbatim>\<open>error instanceof Error && error.message.includes('signature')\<close>\<close>

fun is_signature_error :: "thrown \<Rightarrow> bool" where
  "is_signature_error (JsError m) = includes_str m ''signature''"
| "is_signature_error (JsValue v) = False"

text \<open>\<^verbatim>\<open>error instanceof Error ? error.message : String(error)\<close>\<close>

fun details_of :: "thrown \<Rightarrow> string" where
  "details_of (JsError m) = m"
| "details_of (JsValue v) = v"

text \<open>
  A route handler is a \<^verbatim>\<open>try\<close> block and a \<^verbatim>\<open>catch\<close> clause: the block resolves to
  a response or throws, the clause logs and answers what was thrown.
\<close>

definition route :: "response io \<Rightarrow> (thrown \<Rightarrow> response) \<Rightarrow> string \<Rightarrow> world \<Rightarrow> response \<times> world" where
  "route try_block catch_clause msg w =
     (case try_block w of
        (Inr resp, w1) \<Rightarrow> (resp, w1)
      | (Inl error, w1) \<Rightarrow> (catch_clause error, console ERROR msg w1))"

subsection \<open>Commands topic (app/api/webhooks/commands/route.ts)\<close>

definition commands_try ::
  "(CheckoutCommandPayload event, CheckoutCommandPayload event) env \<Rightarrow> request \<Rightarrow> response io" where
  "commands_try ev request =
     io_bind (verifyQStashSignature ev request)
       (\<lambda>event. io_bind (io_log LOG ''[Commands Webhook] Received'')
         (\<lambda>u. if eventType event = ''command.checkout''
              then io_bind (handleCheckoutCommand event)
                     (\<lambda>u. io_return
                            \<lparr>status = 200,
                              json = SuccessEvent (eventId event) (eventType event) None\<rparr>)
              else io_bind (io_log WARN ''[Commands Webhook] Unknown event type'')
                     (\<lambda>u. io_return
                            \<lparr>status = 400, json = ErrorResponse ''Unknown event type'' None\<rparr>)))"

definition commands_catch :: "thrown \<Rightarrow> response" where
  "commands_catch error =
     (if is_signature_error error
      then \<lparr>status = 401, json = ErrorResponse ''Invalid signature'' (Some (details_of error))\<rparr>
      else \<lparr>status = 500, json = ErrorResponse ''Processing failed'' (Some (details_of error))\<rparr>)"

definition commands_POST ::
  "(CheckoutCommandPayload event, CheckoutCommandPayload event) env \<Rightarrow> request \<Rightarrow> world
     \<Rightarrow> response \<times> world" where
  "commands_POST ev request =
     route (commands_try ev request) commands_catch ''[Commands Webhook] Error processing event:''"

subsection \<open>Orders, inventory and analytics topics\<close>

text \<open>
  The routes of these three topics that verify through \<^verbatim>\<open>verifyQStashSignature\<close>
  (app/api/webhooks/orders, inventory and analytics).
\<close>

text \<open>
  The \<^verbatim>\<open>catch\<close> clause the orders, inventory, analytics and notifications routes
  share word for word.
\<close>

definition topic_catch :: "thrown \<Rightarrow> response" where
  "topic_catch error =
     (if is_signature_error error
      then \<lparr>status = 401, json = ErrorResponse ''Invalid signature'' None\<rparr>
      else \<lparr>status = 500, json = ErrorResponse ''Processing failed'' (Some (details_of error))\<rparr>)"

definition orders_try :: "('p event, 'p event) env \<Rightarrow> request \<Rightarrow> response io" where
  "orders_try ev request =
     io_bind (verifyQStashSignature ev request)
       (\<lambda>event. io_bind (io_log LOG ''[Orders Webhook] Received'')
         (\<lambda>u. io_bind (io_log LOG ''[Orders Webhook] Order ID, Status'')
           (\<lambda>u. io_return
                  \<lparr>status = 200, json = SuccessEvent (eventId event) (eventType event) None\<rparr>)))"

definition orders_POST :: "('p event, 'p event) env \<Rightarrow> request \<Rightarrow> world \<Rightarrow> response \<times> world" where
  "orders_POST ev request =
     route (orders_try ev request) topic_catch ''[Orders Webhook] Error processing event:''"

definition inventory_try :: "('p event, 'p event) env \<Rightarrow> request \<Rightarrow> response io" where
  "inventory_try ev request =
     io_bind (verifyQStashSignature ev request)
       (\<lambda>event. io_bind (io_log LOG ''[Inventory Webhook] Received'')
         (\<lambda>u. io_return
                \<lparr>status = 200, json = SuccessEvent (eventId event) (eventType event) None\<rparr>))"

definition inventory_POST :: "('p event, 'p event) env \<Rightarrow> request \<Rightarrow> world \<Rightarrow> response \<times> world" where
  "inventory_POST ev request =
     route (inventory_try ev request) topic_catch ''[Inventory Webhook] Error processing event:''"

definition analytics_try :: "('p event, 'p event) env \<Rightarrow> request \<Rightarrow> response io" where
  "analytics_try ev request =
     io_bind (verifyQStashSignature ev request)
       (\<lambda>event. io_bind (io_log LOG ''[Analytics Webhook] Received'')
         (\<lambda>u. io_bind (if eventType event = ''analytics.audit''
                       then io_log LOG ''[Analytics Webhook] Audit'' else io_return ())
           (\<lambda>u. io_bind (if eventType event = ''analytics.dlq''
                         then io_log ERROR ''[Analytics Webhook] DLQ Event:'' else io_return ())
             (\<lambda>u. io_return
                    \<lparr>status = 200,
                      json = SuccessEvent (eventId event) (eventType event) None\<rparr>))))"

definition analytics_POST :: "('p event, 'p event) env \<Rightarrow> request \<Rightarrow> world \<Rightarrow> response \<times> world" where
  "analytics_POST ev request =
     route (analytics_try ev request) topic_catch ''[Analytics Webhook] Error processing event:''"

subsection \<open>Notifications topic (the route that imports lib/deduplication)\<close>

text \<open>The template registry holds one renderer.\<close>

definition templates :: "string \<Rightarrow> bool" where
  "templates templateId = (templateId = ''order-confirmation'')"

text \<open>
  \<^verbatim>\<open>sendEmail\<close>: without SMTP settings the mail is printed and counts as sent; with
  them a throw of \<^verbatim>\<open>transport.sendMail\<close> is caught and answered \<^verbatim>\<open>false\<close>.
\<close>

definition sendEmail :: "string \<Rightarrow> string \<Rightarrow> bool io" where
  "sendEmail rcpt subject w =
     (if \<not> smtp_configured w
      then (Inr True, console LOG ''[Notifications Webhook] EMAIL (MOCK)'' w)
      else
        (case next_fault (smtp_faults w) of
           (Some error, rest) \<Rightarrow>
             (Inr False,
              console ERROR ''[Notifications Webhook] Failed to send email:''
                (w\<lparr>smtp_faults := rest\<rparr>))
         | (None, rest) \<Rightarrow>
             (Inr True,
              console LOG ''[Notifications Webhook] Email sent''
                (emit (EmailSent rcpt subject) (w\<lparr>smtp_faults := rest\<rparr>)))))"

definition handleEmailNotification :: "EmailNotificationPayload event \<Rightarrow> unit io" where
  "handleEmailNotification event =
     (let p = payload event in
      io_bind (io_log LOG ''[Notifications Webhook] Processing email'')
        (\<lambda>u. if \<not> templates (email_templateId p)
             then io_bind (io_log ERROR ''[Notifications Webhook] Unknown template'')
                    (\<lambda>u. io_throw (JsError (''Unknown template: '' @ email_templateId p)))
             else io_bind (sendEmail (email_to p) (email_subject p))
                    (\<lambda>success.
                       io_bind
                         (publishAuditLog
                            (AuditLog (if success then ''email.sent'' else ''email.failed'')
                               ''email'' (eventId event))
                            (correlationId event))
                         (\<lambda>e. if success
                              then io_log LOG ''[Notifications Webhook] Email sent to''
                              else io_bind
                                     (io_log ERROR ''[Notifications Webhook] Failed to send email to'')
                                     (\<lambda>u. io_throw
                                            (JsError (''Failed to send email to '' @ email_to p)))))))"

text \<open>The processor handed to \<^verbatim>\<open>processWithDeduplication\<close>: the \<^verbatim>\<open>switch\<close> on the type.\<close>

definition notifications_processor :: "EmailNotificationPayload event \<Rightarrow> unit io" where
  "notifications_processor event =
     (if eventType event = ''notification.email''
      then handleEmailNotification event
      else io_bind (io_log WARN ''[Notifications Webhook] Unknown event type'')
             (\<lambda>u. io_throw (JsError (''Unknown event type: '' @ eventType event))))"

definition notifications_try ::
  "(EmailNotificationPayload event, EmailNotificationPayload event) env \<Rightarrow> request
     \<Rightarrow> response io" where
  "notifications_try ev request =
     io_bind (verifyQStashSignature ev request)
       (\<lambda>event. io_bind (io_log LOG ''[Notifications Webhook] Received'')
         (\<lambda>u. io_bind (processWithDeduplication (eventId event) (notifications_processor event))
           (\<lambda>r. io_bind (if \<not> processed r
                         then io_log LOG ''[Notifications Webhook] Event was already processed (duplicate)''
                         else io_return ())
             (\<lambda>u. io_return
                    \<lparr>status = 200,
                      json = SuccessEvent (eventId event) (eventType event)
                               (Some (\<not> processed r))\<rparr>))))"

definition notifications_POST ::
  "(EmailNotificationPayload event, EmailNotificationPayload event) env \<Rightarrow> request \<Rightarrow> world
     \<Rightarrow> response \<times> world" where
  "notifications_POST ev request =
     route (notifications_try ev request) topic_catch
       ''[Notifications Webhook] Error processing event:''"

section \<open>The orders service (services/orders-service/app/api/webhook/route.ts)\<close>

text \<open>
  The service's own publisher: it posts to the QStash publish API with
  \<^verbatim>\<open>fetch\<close>, and skips the publish with a warning when no token is set.
\<close>

definition os_publishEvent :: "string option \<Rightarrow> topic \<Rightarrow> out_payload event \<Rightarrow> unit io" where
  "os_publishEvent token tp event w =
     (if \<not> truthy token
      then (Inr (), console WARN ''[Orders Service] QSTASH_TOKEN not set, skipping publish'' w)
      else
        (case next_fault (publish_faults w) of
           (Some error, rest) \<Rightarrow>
             (Inl error, emit (PublishCall tp (phase w) event) (w\<lparr>publish_faults := rest\<rparr>))
         | (None, rest) \<Rightarrow>
             (Inr (), emit (PublishCall tp (phase w) event) (w\<lparr>publish_faults := rest\<rparr>))))"

text \<open>
  The service builds each event in place:
  \<^verbatim>\<open>{ eventId: randomUUID(), eventType, version: '1.0', source: 'orders-service', correlationId, payload }\<close>.
\<close>

definition os_event :: "string \<Rightarrow> string \<Rightarrow> out_payload \<Rightarrow> world \<Rightarrow> out_payload event \<times> world" where
  "os_event evType cid pl w =
     (case randomUUID w of
        (uuid, w1) \<Rightarrow>
          (\<lparr>eventId = uuid, eventType = evType, version = ''1.0'', source = ''orders-service'',
            correlationId = Some cid, payload = pl\<rparr>, w1))"

definition os_publish :: "string option \<Rightarrow> topic \<Rightarrow> string \<Rightarrow> string \<Rightarrow> out_payload \<Rightarrow> unit io" where
  "os_publish token tp evType cid pl w =
     (case os_event evType cid pl w of (event, w1) \<Rightarrow> os_publishEvent token tp event w1)"

definition os_publish_stock :: "string option \<Rightarrow> string \<Rightarrow> out_payload \<Rightarrow> world \<Rightarrow> world" where
  "os_publish_stock token cid pl =
     fire_and_forget (os_publish token INVENTORY ''inventory.stock.updated'' cid pl)
       ''[Orders Service] Failed to publish stock update:''"

definition os_handleCheckoutCommand ::
  "string option \<Rightarrow> CheckoutCommandPayload event \<Rightarrow> unit io" where
  "os_handleCheckoutCommand token event =
     (let p = payload event; cid = correlation_of event in
      io_bind (io_log LOG ''[Orders Service] Processing checkout'')
        (\<lambda>u. io_bind (transaction (checkout_transaction (os_publish_stock token cid) p))
          (\<lambda>res.
             let orderPayload =
                   OrderCreated (order_id res) (userId p) (items p) (totalAmount p) ''PENDING''
             in
             io_bind (io_log LOG ''[Orders Service] Order created successfully'')
               (\<lambda>u. io_bind (os_publish token ORDERS ''order.created'' cid orderPayload)
                 (\<lambda>u. io_bind (io_log LOG ''[Orders Service] Published order.created'')
                   (\<lambda>u. io_bind
                          (os_publish token NOTIFICATIONS ''notification.email'' cid
                             (EmailRequest (customerEmail p)
                                (''Order Confirmation - '' @ order_id res)
                                ''order-confirmation'' ''high''))
                     (\<lambda>u. io_bind
                            (io_log LOG ''[Orders Service] Requested email notification'')
                       (\<lambda>u. os_publish token ANALYTICS ''analytics.audit'' cid
                              (AuditLog ''order.created'' ''order'' (order_id res))))))))))"

text \<open>\<^verbatim>\<open>process.env.QSTASH_CURRENT_SIGNING_KEY || ''\<close>\<close>

fun or_empty :: "string option \<Rightarrow> string" where
  "or_empty None = []"
| "or_empty (Some s) = s"

definition os_try ::
  "(bool, CheckoutCommandPayload event) env \<Rightarrow> request \<Rightarrow> response io" where
  "os_try ev request =
     (if \<not> truthy (upstash_signature request)
      then io_bind (io_log ERROR ''[Orders Service] Missing QStash signature'')
             (\<lambda>u. io_return \<lparr>status = 401, json = ErrorResponse ''Missing signature'' None\<rparr>)
      else
        (case receiver_verify ev (or_empty (currentSigningKey ev)) (or_empty (nextSigningKey ev))
                (the (upstash_signature request)) (body request) of
           Inl error \<Rightarrow>
             io_bind (io_log ERROR ''[Orders Service] Signature verification failed:'')
               (\<lambda>u. io_return
                      \<lparr>status = 401, json = ErrorResponse ''Signature verification failed'' None\<rparr>)
         | Inr isValid \<Rightarrow>
             if \<not> isValid
             then io_bind (io_log ERROR ''[Orders Service] Invalid QStash signature'')
                    (\<lambda>u. io_return \<lparr>status = 401, json = ErrorResponse ''Invalid signature'' None\<rparr>)
             else
               (case json_parse ev (body request) of
                  Inl error \<Rightarrow> io_throw error
                | Inr event \<Rightarrow>
                    io_bind (io_log LOG ''[Orders Service] Received event'')
                      (\<lambda>u. if eventType event = ''command.checkout''
                           then io_bind (os_handleCheckoutCommand (QSTASH_TOKEN ev) event)
                                  (\<lambda>u. io_return
                                         \<lparr>status = 200, json = SuccessMessage ''Checkout processed''\<rparr>)
                           else if startsWith (eventType event) ''order.''
                           then io_bind (io_log LOG ''[Orders Service] Order event received'')
                                  (\<lambda>u. io_return
                                         \<lparr>status = 200,
                                           json = SuccessMessage ''Order event processed''\<rparr>)
                           else io_bind (io_log LOG ''[Orders Service] Unknown event type'')
                                  (\<lambda>u. io_return
                                         \<lparr>status = 200, json = SuccessMessage ''Event ignored''\<rparr>)))))"

definition os_catch :: "thrown \<Rightarrow> response" where
  "os_catch error =
     \<lparr>status = 500,
      json = ErrorResponse ''Failed to process webhook''
               (Some (case error of JsError m \<Rightarrow> m | JsValue v \<Rightarrow> ''Unknown error''))\<rparr>"

definition os_POST ::
  "(bool, CheckoutCommandPayload event) env \<Rightarrow> request \<Rightarrow> world \<Rightarrow> response \<times> world" where
  "os_POST ev request =
     route (os_try ev request) os_catch ''[Orders Service] Error processing webhook:''"

section \<open>Vocabulary of the statements\<close>

text \<open>
  The first throw among the next \<open>n\<close> calls on a resource, if the script
  schedules one.
\<close>

fun first_fault :: "nat \<Rightarrow> thrown option list \<Rightarrow> thrown option" where
  "first_fault 0 fs = None"
| "first_fault (Suc n) [] = None"
| "first_fault (Suc n) (None # fs) = first_fault n fs"
| "first_fault (Suc n) (Some e # fs) = Some e"

text \<open>
  The statements the transaction callback awaits: the two inserts, then for
  each line item the select, the variation update when the item names a
  variation, and the product update.
\<close>

definition item_statements :: "OrderItem \<Rightarrow> nat" where
  "item_statements item = (if truthy (variationId item) then 3 else 2)"

definition transaction_statements :: "OrderItem list \<Rightarrow> nat" where
  "transaction_statements its = 2 + sum_list (map item_statements its)"

text \<open>
  What the specification asks of a publish call (section 4.5, step 4): that it
  is issued once the transaction has committed.
\<close>

fun issued_after_commit :: "effect \<Rightarrow> bool" where
  "issued_after_commit (PublishCall tp ph event) = (ph = TxCommitted)"
| "issued_after_commit e = True"

text \<open>
  What the routes do: a stock update goes to the inventory topic while the
  transaction is open, every other publish call is issued after the commit.
\<close>

fun publish_discipline :: "effect \<Rightarrow> bool" where
  "publish_discipline (PublishCall tp ph event) =
     (if eventType event = ''inventory.stock.updated''
      then tp = INVENTORY \<and> ph = TxOpen
      else ph = TxCommitted)"
| "publish_discipline e = True"

definition disciplined :: "tx_phase \<Rightarrow> world \<Rightarrow> bool" where
  "disciplined ph w = (phase w = ph \<and> list_all publish_discipline (effects w))"

text \<open>A computation that keeps the discipline of a phase.\<close>

definition keeps :: "tx_phase \<Rightarrow> 'a io \<Rightarrow> bool" where
  "keeps ph m = (\<forall>w. disciplined ph w \<longrightarrow> disciplined ph (snd (m w)))"

text \<open>
  The timeline of a run: the transaction marks and the types of the events
  published, in the order of the effects.
\<close>

datatype mark = Begin | Commit | Rollback | Published topic string

fun timeline :: "effect list \<Rightarrow> mark list" where
  "timeline [] = []"
| "timeline (TxBegin # fx) = Begin # timeline fx"
| "timeline (TxCommit # fx) = Commit # timeline fx"
| "timeline (TxRollback # fx) = Rollback # timeline fx"
| "timeline (PublishCall tp ph event # fx) = Published tp (eventType event) # timeline fx"
| "timeline (Console l msg # fx) = timeline fx"
| "timeline (EmailSent rcpt subject # fx) = timeline fx"

section \<open>Scenarios\<close>

text \<open>
  A shop with three products in stock and nothing scheduled to fail, and the
  checkout commands the scenarios deliver. \<open>checkout_AB\<close> is the end-to-end
  scenario of section 8 of the specification.
\<close>

definition shop :: world where
  "shop =
     \<lparr>db = \<lparr>orders = [], orderItems = [],
             products = [''A'' \<mapsto> 10, ''B'' \<mapsto> 5, ''C'' \<mapsto> 1],
             productVariations = Map.empty\<rparr>,
      phase = NoTransaction, redis_keys = Map.empty, db_faults = [], redis_faults = [],
      publish_faults = [], smtp_configured = False, smtp_faults = [], uuid_counter = 0,
      effects = []\<rparr>"

definition checkout_with :: "string \<Rightarrow> OrderItem list \<Rightarrow> CheckoutCommandPayload event" where
  "checkout_with evId its =
     \<lparr>eventId = evId, eventType = ''command.checkout'', version = ''1.0'',
      source = ''checkout-api'', correlationId = Some ''corr-1'',
      payload = \<lparr>userId = ''u1'', customerName = ''Ann'', customerEmail = ''ann@example.com'',
                  customerAddress = ''1 Main St'', items = its, totalAmount = 45,
                  paymentId = ''pay-1''\<rparr>\<rparr>"

definition item_A :: OrderItem where
  "item_A = \<lparr>productId = ''A'', variationId = None, quantity = 2, price = 10\<rparr>"

definition item_B :: OrderItem where
  "item_B = \<lparr>productId = ''B'', variationId = None, quantity = 1, price = 25\<rparr>"

definition item_C :: OrderItem where
  "item_C = \<lparr>productId = ''C'', variationId = None, quantity = 2, price = 5\<rparr>"

definition checkout_A :: "CheckoutCommandPayload event" where
  "checkout_A = checkout_with ''evt-A'' [item_A]"

definition checkout_AB :: "CheckoutCommandPayload event" where
  "checkout_AB = checkout_with ''evt-AB'' [item_A, item_B]"

definition checkout_ABC :: "CheckoutCommandPayload event" where
  "checkout_ABC = checkout_with ''evt-ABC'' [item_A, item_B, item_C]"

definition checkout_C :: "CheckoutCommandPayload event" where
  "checkout_C = checkout_with ''evt-C'' [item_C]"

text \<open>A stand-in for the JSON parser: four bodies parse, every other body throws.\<close>

definition parse_checkout :: "string \<Rightarrow> thrown + CheckoutCommandPayload event" where
  "parse_checkout b =
     (if b = ''checkout_A'' then Inr checkout_A
      else if b = ''checkout_AB'' then Inr checkout_AB
      else if b = ''checkout_ABC'' then Inr checkout_ABC
      else if b = ''checkout_C'' then Inr checkout_C
      else Inl (JsError (''Unexpected token in JSON: '' @ b)))"

text \<open>
  A stand-in for the signatures: the signature of a body under a key is the key
  followed by the body, and either key verifies.
\<close>

definition signed_by :: "string \<Rightarrow> string \<Rightarrow> string \<Rightarrow> string \<Rightarrow> bool" where
  "signed_by cur nxt sg b = (sg = cur @ b \<or> sg = nxt @ b)"

text \<open>
  The receiver of the library resolves to the boolean \<^verbatim>\<open>true\<close> for a valid
  signature and throws for any other; the routes that call it inline read its
  value as \<^verbatim>\<open>isValid\<close>. The shared verifier hands the same value on as the event
  (\<^verbatim>\<open>verified as T\<close>), and every field read from it is \<^verbatim>\<open>undefined\<close>: it equals
  no case label and prints as ``undefined'' in a template literal.
  \<open>verified_as_event\<close> stands for that value, with this string in the fields
  the routes read. No route reads the payload before it has tested the type,
  so the payload of the stand-in is never used; it is passed in, and the
  scenarios pass an empty one.
\<close>

definition verified_as_event :: "'p \<Rightarrow> 'p event" where
  "verified_as_event unread =
     \<lparr>eventId = ''undefined'', eventType = ''undefined'', version = ''undefined'',
      source = ''undefined'', correlationId = None, payload = unread\<rparr>"

definition library_receiver ::
  "'p \<Rightarrow> string \<Rightarrow> string \<Rightarrow> string \<Rightarrow> string \<Rightarrow> thrown + 'p event" where
  "library_receiver unread cur nxt sg b =
     (if signed_by cur nxt sg b then Inr (verified_as_event unread)
      else Inl (JsError ''jwt invalid''))"

definition empty_checkout_payload :: CheckoutCommandPayload where
  "empty_checkout_payload =
     \<lparr>userId = [], customerName = [], customerEmail = [], customerAddress = [], items = [],
      totalAmount = 0, paymentId = []\<rparr>"

definition empty_email_payload :: EmailNotificationPayload where
  "empty_email_payload =
     \<lparr>email_to = [], email_subject = [], email_templateId = [], email_priority = []\<rparr>"

definition development_env ::
  "(CheckoutCommandPayload event, CheckoutCommandPayload event) env" where
  "development_env =
     \<lparr>currentSigningKey = None, nextSigningKey = None, NODE_ENV = Some ''development'',
      QSTASH_TOKEN = Some ''token'',
      receiver_verify = library_receiver empty_checkout_payload,
      json_parse = parse_checkout\<rparr>"

definition production_env ::
  "(CheckoutCommandPayload event, CheckoutCommandPayload event) env" where
  "production_env =
     development_env\<lparr>currentSigningKey := Some ''k1:'', nextSigningKey := Some ''k2:'',
                     NODE_ENV := Some ''production''\<rparr>"

definition unconfigured_production_env ::
  "(CheckoutCommandPayload event, CheckoutCommandPayload event) env" where
  "unconfigured_production_env = development_env\<lparr>NODE_ENV := Some ''production''\<rparr>"

definition post_of :: "string \<Rightarrow> request" where
  "post_of b = \<lparr>upstash_signature = Some (''k1:'' @ b), body = b\<rparr>"

definition unsigned_post_of :: "string \<Rightarrow> request" where
  "unsigned_post_of b = \<lparr>upstash_signature = None, body = b\<rparr>"

definition forged_post_of :: "string \<Rightarrow> request" where
  "forged_post_of b = \<lparr>upstash_signature = Some ''forged'', body = b\<rparr>"

text \<open>The environment of the orders service, whose receiver answers a boolean.\<close>

definition service_env :: "(bool, CheckoutCommandPayload event) env" where
  "service_env =
     \<lparr>currentSigningKey = Some ''k1:'', nextSigningKey = Some ''k2:'',
      NODE_ENV = Some ''production'', QSTASH_TOKEN = Some ''token'',
      receiver_verify = (\<lambda>cur nxt sg b. Inr (signed_by cur nxt sg b)),
      json_parse = parse_checkout\<rparr>"

text \<open>The same service with a receiver that throws on every signature.\<close>

definition throwing_service_env :: "(bool, CheckoutCommandPayload event) env" where
  "throwing_service_env =
     service_env\<lparr>receiver_verify := (\<lambda>cur nxt sg b. Inl (JsError ''jwt malformed''))\<rparr>"

text \<open>A notification of a type the notifications route has no case for.\<close>

definition sms_event :: "EmailNotificationPayload event" where
  "sms_event =
     \<lparr>eventId = ''evt-sms'', eventType = ''notification.sms'', version = ''1.0'',
      source = ''api'', correlationId = None,
      payload = \<lparr>email_to = ''ann@example.com'', email_subject = ''Hello'',
                  email_templateId = ''order-confirmation'', email_priority = ''normal''\<rparr>\<rparr>"

definition notifications_env ::
  "(EmailNotificationPayload event, EmailNotificationPayload event) env" where
  "notifications_env =
     \<lparr>currentSigningKey = Some ''k1:'', nextSigningKey = Some ''k2:'',
      NODE_ENV = Some ''production'', QSTASH_TOKEN = Some ''token'',
      receiver_verify = library_receiver empty_email_payload,
      json_parse = (\<lambda>b. if b = ''sms'' then Inr sms_event
                          else Inl (JsError (''Unexpected token in JSON: '' @ b)))\<rparr>"

definition development_notifications_env ::
  "(EmailNotificationPayload event, EmailNotificationPayload event) env" where
  "development_notifications_env =
     notifications_env\<lparr>currentSigningKey := None, nextSigningKey := None,
                       NODE_ENV := Some ''development''\<rparr>"

definition unconfigured_notifications_env ::
  "(EmailNotificationPayload event, EmailNotificationPayload event) env" where
  "unconfigured_notifications_env =
     notifications_env\<lparr>currentSigningKey := None, nextSigningKey := None\<rparr>"

text \<open>
  The shop with the sixth statement of the next transaction scheduled to throw:
  for \<open>checkout_ABC\<close> that is the stock update of the second line item.
\<close>

definition shop_failing_with :: "string \<Rightarrow> world" where
  "shop_failing_with msg =
     shop\<lparr>db_faults := [None, None, None, None, None, Some (JsError msg)]\<rparr>"

text \<open>The shop with the stock update of a one-item checkout scheduled to throw.\<close>

definition shop_out_of_stock :: world where
  "shop_out_of_stock = shop\<lparr>db_faults := [None, None, None, Some (JsError ''insufficient stock'')]\<rparr>"

section \<open>Basic facts about the combinators\<close>

lemma io_bind_throw: "fst (m w) = Inl e \<Longrightarrow> io_bind m f w = (Inl e, snd (m w))"
  by (cases "m w") (simp add: io_bind_def)

lemma io_bind_value: "fst (m w) = Inr x \<Longrightarrow> io_bind m f w = f x (snd (m w))"
  by (cases "m w") (simp add: io_bind_def)

lemma io_log_bind: "io_bind (io_log l msg) f w = f () (console l msg w)"
  by (simp add: io_bind_def io_log_def)

lemma io_bind_resolves:
  assumes "fst (io_bind m f w) = Inr y"
  obtains x where "fst (m w) = Inr x" and "io_bind m f w = f x (snd (m w))"
  using assms by (cases "m w"; cases "fst (m w)") (auto simp add: io_bind_def)

lemma route_throw:
  "try_block w = (Inl error, w1) \<Longrightarrow> fst (route try_block catch_clause msg w) = catch_clause error"
  by (simp add: route_def)

section \<open>The idempotency store fails open\<close>

lemma isEventProcessed_never_throws:
  "fst (isEventProcessed evId w) \<noteq> Inl e"
  by (simp add: isEventProcessed_def redis_exists_def Let_def
           split: prod.splits sum.splits option.splits)

lemma markEventProcessed_never_throws:
  "fst (markEventProcessed evId ttl w) = Inr ()"
  by (simp add: markEventProcessed_def redis_setex_def Let_def
           split: prod.splits sum.splits option.splits)

lemma processing_not_blocked:
  assumes "redis_faults w = Some e # rest"
  shows "processWithDeduplication evId processor w
           = (case processor (console ERROR ''[Deduplication] Redis check failed:''
                                (w\<lparr>redis_faults := rest\<rparr>)) of
                (Inl x, w2) \<Rightarrow> (Inl x, w2)
              | (Inr r, w2) \<Rightarrow>
                  (Inr \<lparr>processed = True, result = Some r\<rparr>,
                   snd (markEventProcessed evId DEDUP_TTL_SECONDS w2)))"
proof -
  have c: "isEventProcessed evId w
             = (Inr False, console ERROR ''[Deduplication] Redis check failed:''
                             (w\<lparr>redis_faults := rest\<rparr>))"
    using assms by (simp add: isEventProcessed_def redis_exists_def)
  have m: "markEventProcessed evId DEDUP_TTL_SECONDS w2
             = (Inr (), snd (markEventProcessed evId DEDUP_TTL_SECONDS w2))" for w2
    using markEventProcessed_never_throws [of evId DEDUP_TTL_SECONDS w2]
    by (cases "markEventProcessed evId DEDUP_TTL_SECONDS w2") simp
  show ?thesis
    unfolding processWithDeduplication_def c
    by (subst m) (simp split: prod.splits sum.splits)
qed

text \<open>
  Claim C6. When the store call throws, \<open>isEventProcessed\<close> resolves to false and
  \<open>markEventProcessed\<close> resolves normally; neither writes a key, and in no world
  does either of them throw. Processing is not blocked: when the check meets
  a store that throws, \<open>processWithDeduplication\<close> runs the processor.
\<close>

theorem C6_store_failure_fails_open:
  "(redis_faults w = Some e # rest \<longrightarrow>
      fst (isEventProcessed evId w) = Inr False
      \<and> fst (markEventProcessed evId ttl w) = Inr ()
      \<and> redis_keys (snd (isEventProcessed evId w)) = redis_keys w
      \<and> redis_keys (snd (markEventProcessed evId ttl w)) = redis_keys w)
   \<and> (\<forall>x. fst (isEventProcessed evId w) \<noteq> Inl x)
   \<and> (\<forall>x. fst (markEventProcessed evId ttl w) \<noteq> Inl x)
   \<and> (redis_faults w = Some e # rest \<longrightarrow>
      processWithDeduplication evId processor w
        = (case processor (console ERROR ''[Deduplication] Redis check failed:''
                             (w\<lparr>redis_faults := rest\<rparr>)) of
             (Inl x, w2) \<Rightarrow> (Inl x, w2)
           | (Inr r, w2) \<Rightarrow>
               (Inr \<lparr>processed = True, result = Some r\<rparr>,
                snd (markEventProcessed evId DEDUP_TTL_SECONDS w2))))"
proof (intro conjI impI allI)
  assume down: "redis_faults w = Some e # rest"
  show "fst (isEventProcessed evId w) = Inr False"
    using down by (simp add: isEventProcessed_def redis_exists_def console_def emit_def)
  show "fst (markEventProcessed evId ttl w) = Inr ()"
    by (rule markEventProcessed_never_throws)
  show "redis_keys (snd (isEventProcessed evId w)) = redis_keys w"
    using down by (simp add: isEventProcessed_def redis_exists_def console_def emit_def)
  show "redis_keys (snd (markEventProcessed evId ttl w)) = redis_keys w"
    using down by (simp add: markEventProcessed_def redis_setex_def console_def emit_def)
next
  fix x show "fst (isEventProcessed evId w) \<noteq> Inl x"
    by (rule isEventProcessed_never_throws)
next
  fix x show "fst (markEventProcessed evId ttl w) \<noteq> Inl x"
    by (simp add: markEventProcessed_never_throws)
next
  assume "redis_faults w = Some e # rest"
  then show "processWithDeduplication evId processor w
        = (case processor (console ERROR ''[Deduplication] Redis check failed:''
                             (w\<lparr>redis_faults := rest\<rparr>)) of
             (Inl x, w2) \<Rightarrow> (Inl x, w2)
           | (Inr r, w2) \<Rightarrow>
               (Inr \<lparr>processed = True, result = Some r\<rparr>,
                snd (markEventProcessed evId DEDUP_TTL_SECONDS w2)))"
    by (rule processing_not_blocked)
qed

theorem C6_store_failure_witness:
  "fst (isEventProcessed ''evt-AB'' (shop\<lparr>redis_faults := [Some (JsError ''ECONNREFUSED'')]\<rparr>))
     = Inr False
   \<and> fst (markEventProcessed ''evt-AB'' 3600
            (shop\<lparr>redis_faults := [Some (JsError ''ECONNREFUSED'')]\<rparr>)) = Inr ()
   \<and> redis_keys (snd (markEventProcessed ''evt-AB'' 3600
            (shop\<lparr>redis_faults := [Some (JsError ''ECONNREFUSED'')]\<rparr>))) = redis_keys shop
   \<and> fst (processWithDeduplication ''evt-AB'' (io_return () :: unit io)
            (shop\<lparr>redis_faults := [Some (JsError ''ECONNREFUSED'')]\<rparr>))
     = Inr \<lparr>processed = True, result = Some ()\<rparr>"
  using C6_store_failure_fails_open
          [of "shop\<lparr>redis_faults := [Some (JsError ''ECONNREFUSED'')]\<rparr>"
              "JsError ''ECONNREFUSED''" "[]" "''evt-AB''" 3600 "io_return () :: unit io"]
  by (simp add: io_return_def)

section \<open>Processing with deduplication\<close>

text \<open>
  Claim C7. \<open>processWithDeduplication\<close> asks the store first. When the id is
  reported seen it resolves to the duplicate result whatever the processor is,
  so the processor is not run. When it is not, the processor runs on the world
  the check left; if it resolves, \<open>markEventProcessed\<close> runs next on the world
  the processor left; if it throws, the same value is thrown and the world is
  the one the processor left, with no store write after it. With the store
  answering, seen means that the key of the id exists.
\<close>

theorem C7_processWithDeduplication:
  "(isEventProcessed evId w = (Inr True, w1) \<longrightarrow>
      processWithDeduplication evId processor w
        = (Inr \<lparr>processed = False, result = None\<rparr>,
           console LOG ''[Deduplication] Event already processed, skipping'' w1))
   \<and> (isEventProcessed evId w = (Inr False, w1) \<and> processor w1 = (Inr r, w2) \<longrightarrow>
      processWithDeduplication evId processor w
        = (Inr \<lparr>processed = True, result = Some r\<rparr>,
           snd (markEventProcessed evId DEDUP_TTL_SECONDS w2)))
   \<and> (isEventProcessed evId w = (Inr False, w1) \<and> processor w1 = (Inl error, w2) \<longrightarrow>
      processWithDeduplication evId processor w = (Inl error, w2))
   \<and> (fst (next_fault (redis_faults w)) = None \<longrightarrow>
      fst (isEventProcessed evId w) = Inr (redis_keys w (DEDUP_KEY_PREFIX @ evId) \<noteq> None))"
proof (intro conjI impI)
  assume "isEventProcessed evId w = (Inr True, w1)"
  then show "processWithDeduplication evId processor w
        = (Inr \<lparr>processed = False, result = None\<rparr>,
           console LOG ''[Deduplication] Event already processed, skipping'' w1)"
    by (simp add: processWithDeduplication_def)
next
  assume a: "isEventProcessed evId w = (Inr False, w1) \<and> processor w1 = (Inr r, w2)"
  obtain u w3 where m: "markEventProcessed evId DEDUP_TTL_SECONDS w2 = (u, w3)"
    by (cases "markEventProcessed evId DEDUP_TTL_SECONDS w2")
  have "u = Inr ()"
    using markEventProcessed_never_throws [of evId DEDUP_TTL_SECONDS w2] m by simp
  with a m show "processWithDeduplication evId processor w
        = (Inr \<lparr>processed = True, result = Some r\<rparr>,
           snd (markEventProcessed evId DEDUP_TTL_SECONDS w2))"
    by (simp add: processWithDeduplication_def)
next
  assume "isEventProcessed evId w = (Inr False, w1) \<and> processor w1 = (Inl error, w2)"
  then show "processWithDeduplication evId processor w = (Inl error, w2)"
    by (simp add: processWithDeduplication_def)
next
  assume "fst (next_fault (redis_faults w)) = None"
  then show "fst (isEventProcessed evId w) = Inr (redis_keys w (DEDUP_KEY_PREFIX @ evId) \<noteq> None)"
    by (cases "next_fault (redis_faults w)")
       (simp add: isEventProcessed_def redis_exists_def)
qed

theorem C7_processWithDeduplication_witness:
  "fst (processWithDeduplication ''evt-AB'' (io_throw (JsError ''boom'') :: unit io)
          (shop\<lparr>redis_keys := [''webhook:dedup:evt-AB'' \<mapsto> (''1'', 3600)]\<rparr>))
     = Inr \<lparr>processed = False, result = None\<rparr>
   \<and> fst (processWithDeduplication ''evt-AB'' (io_return ()) shop)
     = Inr \<lparr>processed = True, result = Some ()\<rparr>
   \<and> redis_keys (snd (processWithDeduplication ''evt-AB'' (io_return ()) shop))
        ''webhook:dedup:evt-AB'' = Some (''1'', 3600)
   \<and> processWithDeduplication ''evt-AB'' (io_throw (JsError ''boom'') :: unit io) shop
     = (Inl (JsError ''boom''), shop)"
proof -
  let ?seen = "shop\<lparr>redis_keys := [''webhook:dedup:evt-AB'' \<mapsto> (''1'', 3600)]\<rparr>"
  have h1: "isEventProcessed ''evt-AB'' ?seen = (Inr True, ?seen)"
    by (simp add: isEventProcessed_def redis_exists_def shop_def DEDUP_KEY_PREFIX_def)
  have h2: "isEventProcessed ''evt-AB'' shop = (Inr False, shop)"
    by (simp add: isEventProcessed_def redis_exists_def shop_def DEDUP_KEY_PREFIX_def)
  have p1: "io_return () shop = (Inr (), shop)"
    by (simp add: io_return_def)
  have p2: "(io_throw (JsError ''boom'') :: unit io) shop = (Inl (JsError ''boom''), shop)"
    by (simp add: io_throw_def)
  have m: "redis_keys (snd (markEventProcessed ''evt-AB'' DEDUP_TTL_SECONDS shop))
             ''webhook:dedup:evt-AB'' = Some (''1'', 3600)"
    by (simp add: markEventProcessed_def redis_setex_def shop_def DEDUP_KEY_PREFIX_def
          DEDUP_TTL_SECONDS_def)
  from C7_processWithDeduplication
         [of "''evt-AB''" ?seen ?seen "io_throw (JsError ''boom'') :: unit io"] h1
  have r1: "fst (processWithDeduplication ''evt-AB'' (io_throw (JsError ''boom'') :: unit io) ?seen)
              = Inr \<lparr>processed = False, result = None\<rparr>"
    by simp
  from C7_processWithDeduplication [of "''evt-AB''" shop shop "io_return ()" "()" shop] h2 p1
  have r2: "processWithDeduplication ''evt-AB'' (io_return ()) shop
              = (Inr \<lparr>processed = True, result = Some ()\<rparr>,
                 snd (markEventProcessed ''evt-AB'' DEDUP_TTL_SECONDS shop))"
    by simp
  from C7_processWithDeduplication
         [of "''evt-AB''" shop shop "io_throw (JsError ''boom'') :: unit io" _ shop "JsError ''boom''"] h2 p2
  have r3: "processWithDeduplication ''evt-AB'' (io_throw (JsError ''boom'') :: unit io) shop
              = (Inl (JsError ''boom''), shop)"
    by simp
  show ?thesis
    using r1 r2 r3 m by simp
qed

section \<open>Unconfigured signing keys\<close>

text \<open>
  Claim C5. With a signing key missing, \<open>verifyQStashSignature\<close> throws in every
  environment other than development, production among them; in development
  it returns the parsed body without looking at the signature; and in both
  cases it writes the warning about the skipped verification.
\<close>

theorem C5_unconfigured_keys:
  "\<not> truthy (currentSigningKey ev) \<or> \<not> truthy (nextSigningKey ev) \<Longrightarrow>
     (NODE_ENV ev \<noteq> Some ''development'' \<longrightarrow>
        fst (verifyQStashSignature ev rq w) = Inl (JsError ''QStash signing keys not configured''))
   \<and> (NODE_ENV ev = Some ''development'' \<longrightarrow>
        fst (verifyQStashSignature ev rq w) = json_parse ev (body rq))
   \<and> effects (snd (verifyQStashSignature ev rq w))
        = effects w @ [Console WARN
             ''[QStash] Signing keys not configured - skipping verification (DEV mode)'']"
  by (auto simp add: verifyQStashSignature_def console_def emit_def Let_def)

theorem C5_unconfigured_keys_witness:
  "fst (verifyQStashSignature unconfigured_production_env (unsigned_post_of ''checkout_AB'') shop)
     = Inl (JsError ''QStash signing keys not configured'')
   \<and> fst (verifyQStashSignature development_env (unsigned_post_of ''checkout_AB'') shop)
     = Inr checkout_AB
   \<and> effects (snd (verifyQStashSignature development_env (unsigned_post_of ''checkout_AB'') shop))
     = [Console WARN ''[QStash] Signing keys not configured - skipping verification (DEV mode)'']"
  using C5_unconfigured_keys [of unconfigured_production_env "unsigned_post_of ''checkout_AB''" shop]
        C5_unconfigured_keys [of development_env "unsigned_post_of ''checkout_AB''" shop]
  by (simp add: unconfigured_production_env_def development_env_def unsigned_post_of_def
        parse_checkout_def shop_def)

section \<open>A failed statement rolls the transaction back\<close>

lemma first_fault_Nil: "first_fault k [] = None"
  by (cases k) simp_all

lemma first_fault_step:
  "first_fault (Suc k) fs
     = (case fst (next_fault fs) of Some e \<Rightarrow> Some e | None \<Rightarrow> first_fault k (tl fs))"
proof (cases fs)
  case Nil then show ?thesis by (simp add: first_fault_Nil)
next
  case (Cons f r) then show ?thesis by (cases f) simp_all
qed

lemma db_statement_eq:
  "db_statement run w
     = (case fst (next_fault (db_faults w)) of
          Some e \<Rightarrow> (Inl e, w\<lparr>db_faults := tl (db_faults w)\<rparr>)
        | None \<Rightarrow> (Inr (fst (run (db w))),
                   w\<lparr>db := snd (run (db w)), db_faults := tl (db_faults w)\<rparr>))"
proof (cases "db_faults w")
  case Nil then show ?thesis by (simp add: db_statement_def)
next
  case (Cons f r) then show ?thesis by (cases f) (simp_all add: db_statement_def)
qed

lemma decrement_stock_outcome:
  assumes ps: "\<And>pl w. db_faults (ps pl w) = db_faults w"
  shows "fst (decrement_stock ps oid its w)
           = (case first_fault (sum_list (map item_statements its)) (db_faults w) of
                Some e \<Rightarrow> Inl e | None \<Rightarrow> Inr ())"
proof (induction its arbitrary: w)
  case Nil
  show ?case by simp
next
  case (Cons item rest)
  show ?case
  proof (cases "truthy (variationId item)")
    case True
    then show ?thesis
      by (simp add: item_statements_def numeral_3_eq_3 first_fault_step db_statement_eq
            Cons.IH ps split: option.splits)
  next
    case False
    then show ?thesis
      by (simp add: item_statements_def numeral_2_eq_2 first_fault_step db_statement_eq
            Cons.IH ps split: option.splits)
  qed
qed


lemma orderItemValues_db_faults [simp]:
  "db_faults (snd (orderItemValues oid its w)) = db_faults w"
  by (induction its arbitrary: w) (simp_all add: randomUUID_def case_prod_beta)

lemma publishEvent_db_faults [simp]: "db_faults (snd (publishEvent tp event w)) = db_faults w"
  by (simp add: publishEvent_def console_def emit_def split: prod.splits option.splits)

lemma commands_publish_stock_db_faults [simp]:
  "db_faults (commands_publish_stock cid pl w) = db_faults w"
proof -
  obtain event w1 where c: "createBaseEvent ''inventory.stock.updated'' pl ''orders-service'' (Some cid) w = (event, w1)"
    by (cases "createBaseEvent ''inventory.stock.updated'' pl ''orders-service'' (Some cid) w")
  then have f: "db_faults w1 = db_faults w"
    by (auto simp add: createBaseEvent_def randomUUID_def)
  obtain r w2 where pe: "publishEvent INVENTORY event w1 = (r, w2)"
    by (cases "publishEvent INVENTORY event w1")
  have "db_faults w2 = db_faults w1"
    using publishEvent_db_faults [of INVENTORY event w1] pe by simp
  with c f pe show ?thesis
    by (cases r) (simp_all add: commands_publish_stock_def fire_and_forget_def publishStockUpdate_def
          io_bind_def io_return_def console_def emit_def)
qed

lemma checkout_transaction_outcome:
  assumes ps: "\<And>pl w. db_faults (ps pl w) = db_faults w"
  shows "fst (checkout_transaction ps p w)
           = (case first_fault (transaction_statements (items p)) (db_faults w) of
                Some e \<Rightarrow> Inl e
              | None \<Rightarrow>
                  Inr \<lparr>order_id = uuid_string (uuid_counter w), order_userId = userId p,
                       order_customerName = customerName p,
                       order_customerEmail = customerEmail p,
                       order_customerAddress = customerAddress p,
                       order_totalAmount = totalAmount p, order_status = ''PENDING''\<rparr>)"
  by (simp add: checkout_transaction_def transaction_statements_def randomUUID_def io_bind_def
        io_return_def db_statement_eq first_fault_step insert_order_def insert_orderItems_def
        case_prod_beta decrement_stock_outcome [OF ps]
        split: option.splits sum.splits)


lemma transaction_rollback:
  "fst (callback (emit TxBegin (w\<lparr>phase := TxOpen\<rparr>))) = Inl e \<Longrightarrow>
     fst (transaction callback w) = Inl e \<and> db (snd (transaction callback w)) = db w"
  by (cases "callback (emit TxBegin (w\<lparr>phase := TxOpen\<rparr>))")
     (simp add: transaction_def emit_def)

lemma handleCheckoutCommand_rollback:
  assumes "first_fault (transaction_statements (items (payload event))) (db_faults w) = Some e"
  shows "fst (handleCheckoutCommand event w) = Inl e
         \<and> db (snd (handleCheckoutCommand event w)) = db w"
proof -
  let ?w1 = "console LOG ''[Commands Webhook] Processing checkout'' w"
  let ?cb = "checkout_transaction (commands_publish_stock (correlation_of event)) (payload event)"
  have "fst (?cb (emit TxBegin (?w1\<lparr>phase := TxOpen\<rparr>))) = Inl e"
    using assms
    by (simp add: checkout_transaction_outcome console_def emit_def)
  then have t: "fst (transaction ?cb ?w1) = Inl e \<and> db (snd (transaction ?cb ?w1)) = db ?w1"
    by (rule transaction_rollback)
  have "handleCheckoutCommand event w = (Inl e, snd (transaction ?cb ?w1))"
    unfolding handleCheckoutCommand_def Let_def io_log_bind
    using t by (rule_tac io_bind_throw) simp
  with t show ?thesis
    by (simp add: console_def emit_def)
qed


lemma verifyQStashSignature_store:
  "db (snd (verifyQStashSignature ev rq w)) = db w
   \<and> db_faults (snd (verifyQStashSignature ev rq w)) = db_faults w"
  by (simp add: verifyQStashSignature_def Let_def console_def emit_def split: sum.splits)

lemma commands_try_checkout:
  assumes v: "verifyQStashSignature ev rq w = (Inr event, w1)"
    and t: "eventType event = ''command.checkout''"
  shows "commands_try ev rq w
           = io_bind (handleCheckoutCommand event)
               (\<lambda>u. io_return
                      \<lparr>status = 200,
                        json = SuccessEvent (eventId event) (eventType event) None\<rparr>)
               (console LOG ''[Commands Webhook] Received'' w1)"
  unfolding commands_try_def
  using v t by (simp add: io_bind_value io_log_bind)

lemma commands_POST_rollback:
  assumes v: "verifyQStashSignature ev rq w = (Inr event, w1)"
    and t: "eventType event = ''command.checkout''"
    and f: "first_fault (transaction_statements (items (payload event))) (db_faults w) = Some e"
  shows "fst (commands_POST ev rq w) = commands_catch e \<and> db (snd (commands_POST ev rq w)) = db w"
proof -
  from verifyQStashSignature_store [of ev rq w] v
  have s: "db w1 = db w" "db_faults w1 = db_faults w" by simp_all
  let ?w2 = "console LOG ''[Commands Webhook] Received'' w1"
  have "first_fault (transaction_statements (items (payload event))) (db_faults ?w2) = Some e"
    using f s by (simp add: console_def emit_def)
  from handleCheckoutCommand_rollback [OF this]
  have h: "fst (handleCheckoutCommand event ?w2) = Inl e"
          "db (snd (handleCheckoutCommand event ?w2)) = db w"
    using s by (simp_all add: console_def emit_def)
  have "commands_try ev rq w = (Inl e, snd (handleCheckoutCommand event ?w2))"
    unfolding commands_try_checkout [OF v t] using h(1) by (rule io_bind_throw)
  with h(2) show ?thesis
    by (simp add: commands_POST_def route_def console_def emit_def)
qed

text \<open>
  Whatever statement of the order transaction throws, the handler rejects with
  what was thrown and the store is what it was before the delivery: no order
  row, no line item, no stock change. The commands consumer answers with its
  \<^verbatim>\<open>catch\<close> clause.
\<close>

lemma failed_statement_rolls_back:
  assumes "verifyQStashSignature ev rq w = (Inr event, w1)"
    and "eventType event = ''command.checkout''"
    and "first_fault (transaction_statements (items (payload event))) (db_faults w) = Some e"
  shows "fst (handleCheckoutCommand event w) = Inl e
         \<and> db (snd (handleCheckoutCommand event w)) = db w
         \<and> db (snd (commands_POST ev rq w)) = db w
         \<and> fst (commands_POST ev rq w) = commands_catch e"
  using handleCheckoutCommand_rollback [OF assms(3)] commands_POST_rollback [OF assms]
  by simp

lemma development_verify:
  "verifyQStashSignature development_env (unsigned_post_of b) w
     = (parse_checkout b,
        console WARN ''[QStash] Signing keys not configured - skipping verification (DEV mode)'' w)"
  by (simp add: verifyQStashSignature_def development_env_def unsigned_post_of_def)

lemma parse_checkout_ABC: "parse_checkout ''checkout_ABC'' = Inr checkout_ABC"
  by (simp add: parse_checkout_def)

lemma checkout_ABC_sixth_statement:
  "first_fault (transaction_statements (items (payload checkout_ABC)))
       (db_faults (shop_failing_with msg)) = Some (JsError msg)"
  by (simp add: transaction_statements_def item_statements_def checkout_ABC_def checkout_with_def
        item_A_def item_B_def item_C_def shop_failing_with_def shop_def eval_nat_numeral)

text \<open>
  Claim C2 asks that a failed statement of the order transaction rolls
  everything back and is signalled to the queue for a retry. Here the stock
  update of the second of three line items throws an error whose message
  mentions a signature. The store is rolled back, but the commands consumer
  takes the error for a verifier error and answers 401, which asks for no
  retry; and the stock update of the first line item, published inside the
  transaction, stays published.
\<close>

theorem C2_signature_worded_failure_is_not_retried:
  "first_fault (transaction_statements (items (payload checkout_ABC)))
       (db_faults (shop_failing_with ''invalid signature of row''))
     = Some (JsError ''invalid signature of row'')
   \<and> db (snd (commands_POST development_env (unsigned_post_of ''checkout_ABC'')
              (shop_failing_with ''invalid signature of row''))) = db shop
   \<and> fst (commands_POST development_env (unsigned_post_of ''checkout_ABC'')
              (shop_failing_with ''invalid signature of row''))
       = \<lparr>status = 401,
          json = ErrorResponse ''Invalid signature'' (Some ''invalid signature of row'')\<rparr>
   \<and> \<not> retry_worthy (fst (commands_POST development_env (unsigned_post_of ''checkout_ABC'')
              (shop_failing_with ''invalid signature of row'')))
   \<and> timeline (effects (snd (commands_POST development_env (unsigned_post_of ''checkout_ABC'')
              (shop_failing_with ''invalid signature of row''))))
       = [Begin, Published INVENTORY ''inventory.stock.updated'', Rollback]"
proof -
  have v: "verifyQStashSignature development_env (unsigned_post_of ''checkout_ABC'')
             (shop_failing_with ''invalid signature of row'')
           = (Inr checkout_ABC,
              console WARN
                ''[QStash] Signing keys not configured - skipping verification (DEV mode)''
                (shop_failing_with ''invalid signature of row''))"
    by (simp add: development_verify parse_checkout_ABC)
  have t: "eventType checkout_ABC = ''command.checkout''"
    by (simp add: checkout_ABC_def checkout_with_def)
  have d: "db (shop_failing_with ''invalid signature of row'') = db shop"
    by (simp add: shop_failing_with_def)
  have tl: "timeline (effects (snd (commands_POST development_env (unsigned_post_of ''checkout_ABC'')
              (shop_failing_with ''invalid signature of row''))))
       = [Begin, Published INVENTORY ''inventory.stock.updated'', Rollback]"
    by code_simp
  from failed_statement_rolls_back [OF v t checkout_ABC_sixth_statement] d tl
  show ?thesis
    by (simp add: checkout_ABC_sixth_statement commands_catch_def retry_worthy_def)
qed

section \<open>When the publish calls are issued\<close>

lemma disciplined_emit:
  "disciplined ph w \<Longrightarrow> publish_discipline e \<Longrightarrow> disciplined ph (emit e w)"
  by (simp add: disciplined_def emit_def)

lemma disciplined_console [simp]: "disciplined ph (console l msg w) = disciplined ph w"
  by (simp add: disciplined_def console_def emit_def)

lemma disciplined_fields:
  "phase w' = phase w \<Longrightarrow> effects w' = effects w \<Longrightarrow> disciplined ph w' = disciplined ph w"
  by (simp add: disciplined_def)

lemma keeps_bind: "keeps ph m \<Longrightarrow> (\<And>x. keeps ph (f x)) \<Longrightarrow> keeps ph (io_bind m f)"
  unfolding keeps_def
proof (intro allI impI)
  fix w
  assume m: "\<forall>w. disciplined ph w \<longrightarrow> disciplined ph (snd (m w))"
    and f: "\<And>x. \<forall>w. disciplined ph w \<longrightarrow> disciplined ph (snd (f x w))"
    and w: "disciplined ph w"
  obtain r w1 where mw: "m w = (r, w1)" by (cases "m w")
  with m w have "disciplined ph w1" by fastforce
  with f mw show "disciplined ph (snd (io_bind m f w))"
    by (cases r) (simp_all add: io_bind_def)
qed

lemma keeps_return [simp]: "keeps ph (io_return x)"
  by (simp add: keeps_def io_return_def)

lemma keeps_throw [simp]: "keeps ph (io_throw e)"
  by (simp add: keeps_def io_throw_def)

lemma keeps_log [simp]: "keeps ph (io_log l msg)"
  by (simp add: keeps_def io_log_def)

lemma keeps_db_statement [simp]: "keeps ph (db_statement run)"
  by (simp add: keeps_def db_statement_def disciplined_def split: prod.splits option.splits)

lemma keeps_publishEvent:
  "publish_discipline (PublishCall tp ph event) \<Longrightarrow> keeps ph (publishEvent tp event)"
  by (simp add: keeps_def publishEvent_def disciplined_def console_def emit_def
        split: prod.splits option.splits)

lemma createBaseEvent_eventType:
  "eventType (fst (createBaseEvent evType pl src cid w)) = evType"
  by (simp add: createBaseEvent_def randomUUID_def)

lemma createBaseEvent_disciplined:
  "disciplined ph (snd (createBaseEvent evType pl src cid w)) = disciplined ph w"
  by (simp add: createBaseEvent_def randomUUID_def disciplined_def)

lemma keeps_publishStockUpdate: "keeps TxOpen (publishStockUpdate pl cid)"
  unfolding keeps_def
proof (intro allI impI)
  fix w assume w: "disciplined TxOpen w"
  obtain event w1 where c: "createBaseEvent ''inventory.stock.updated'' pl ''orders-service'' cid w = (event, w1)"
    by (cases "createBaseEvent ''inventory.stock.updated'' pl ''orders-service'' cid w")
  from c createBaseEvent_eventType [of "''inventory.stock.updated''" pl "''orders-service''" cid w]
  have t: "eventType event = ''inventory.stock.updated''" by simp
  from c w createBaseEvent_disciplined [of TxOpen "''inventory.stock.updated''" pl "''orders-service''" cid w]
  have w1: "disciplined TxOpen w1" by simp
  have "keeps TxOpen (io_bind (publishEvent INVENTORY event) (\<lambda>u. io_return event))"
    by (rule keeps_bind) (simp_all add: keeps_publishEvent t)
  with w1 c show "disciplined TxOpen (snd (publishStockUpdate pl cid w))"
    by (simp add: publishStockUpdate_def keeps_def)
qed


lemma keeps_committed_publish:
  assumes "evType \<noteq> ''inventory.stock.updated''"
  shows "keeps TxCommitted
           (\<lambda>w. case createBaseEvent evType pl src cid w of
                   (event, w1) \<Rightarrow> io_bind (publishEvent tp event) (\<lambda>u. io_return event) w1)"
  unfolding keeps_def
proof (intro allI impI)
  fix w assume w: "disciplined TxCommitted w"
  obtain event w1 where c: "createBaseEvent evType pl src cid w = (event, w1)"
    by (cases "createBaseEvent evType pl src cid w")
  from c createBaseEvent_eventType [of evType pl src cid w] assms
  have t: "eventType event \<noteq> ''inventory.stock.updated''" by simp
  from c w createBaseEvent_disciplined [of TxCommitted evType pl src cid w]
  have w1: "disciplined TxCommitted w1" by simp
  have "keeps TxCommitted (io_bind (publishEvent tp event) (\<lambda>u. io_return event))"
    by (rule keeps_bind) (simp_all add: keeps_publishEvent t)
  with w1 c show "disciplined TxCommitted
        (snd (case createBaseEvent evType pl src cid w of
                (event, w1) \<Rightarrow> io_bind (publishEvent tp event) (\<lambda>u. io_return event) w1))"
    by (simp add: keeps_def)
qed

lemma keeps_publishOrderCreated: "keeps TxCommitted (publishOrderCreated pl cid)"
  using keeps_committed_publish
          [where evType = "''order.created''" and pl = pl and src = "''orders-service''"
             and cid = cid and tp = ORDERS]
  by (simp add: publishOrderCreated_def [abs_def])

lemma keeps_publishEmailNotification: "keeps TxCommitted (publishEmailNotification pl cid)"
  using keeps_committed_publish
          [where evType = "''notification.email''" and pl = pl and src = "''orders-service''"
             and cid = cid and tp = NOTIFICATIONS]
  by (simp add: publishEmailNotification_def [abs_def])

lemma keeps_publishAuditLog: "keeps TxCommitted (publishAuditLog pl cid)"
  using keeps_committed_publish
          [where evType = "''analytics.audit''" and pl = pl and src = "''api''"
             and cid = cid and tp = ANALYTICS]
  by (simp add: publishAuditLog_def [abs_def])

lemma fire_and_forget_disciplined:
  "keeps ph call \<Longrightarrow> disciplined ph w \<Longrightarrow> disciplined ph (fire_and_forget call msg w)"
  by (cases "call w") (auto simp add: keeps_def fire_and_forget_def split: sum.splits)

lemma commands_publish_stock_disciplined:
  "disciplined TxOpen w \<Longrightarrow> disciplined TxOpen (commands_publish_stock cid pl w)"
  unfolding commands_publish_stock_def
  by (rule fire_and_forget_disciplined [OF keeps_publishStockUpdate])

lemma db_statement_disciplined:
  "db_statement run w = (r, w1) \<Longrightarrow> disciplined ph w1 = disciplined ph w"
  by (auto simp add: db_statement_def disciplined_def split: prod.splits option.splits)

lemma keeps_decrement_stock:
  assumes ps: "\<And>pl w. disciplined TxOpen w \<Longrightarrow> disciplined TxOpen (ps pl w)"
  shows "disciplined TxOpen w \<Longrightarrow> disciplined TxOpen (snd (decrement_stock ps oid its w))"
proof (induction its arbitrary: w)
  case Nil
  then show ?case by simp
next
  case (Cons item rest)
  then show ?case
    by (auto simp add: Let_def ps db_statement_disciplined split: prod.splits sum.splits if_splits)
qed

lemma orderItemValues_disciplined:
  "disciplined ph (snd (orderItemValues oid its w)) = disciplined ph w"
proof (induction its arbitrary: w)
  case Nil
  show ?case by simp
next
  case (Cons item rest)
  have "disciplined ph (w\<lparr>uuid_counter := Suc (uuid_counter w)\<rparr>) = disciplined ph w"
    by (simp add: disciplined_def)
  with Cons show ?case
    by (simp add: randomUUID_def case_prod_beta)
qed


lemma checkout_transaction_disciplined:
  assumes ps: "\<And>pl w. disciplined TxOpen w \<Longrightarrow> disciplined TxOpen (ps pl w)"
    and w: "disciplined TxOpen w"
  shows "disciplined TxOpen (snd (checkout_transaction ps p w))"
proof -
  let ?w1 = "snd (randomUUID w)"
  have w1: "disciplined TxOpen ?w1"
    using w by (simp add: randomUUID_def disciplined_def)
  obtain r w2 where s1: "db_statement (insert_order
                  \<lparr>order_id = fst (randomUUID w), order_userId = userId p,
                    order_customerName = customerName p,
                    order_customerEmail = customerEmail p,
                    order_customerAddress = customerAddress p,
                    order_totalAmount = totalAmount p, order_status = ''PENDING''\<rparr>) ?w1 = (r, w2)"
    by (cases "db_statement (insert_order
                  \<lparr>order_id = fst (randomUUID w), order_userId = userId p,
                    order_customerName = customerName p,
                    order_customerEmail = customerEmail p,
                    order_customerAddress = customerAddress p,
                    order_totalAmount = totalAmount p, order_status = ''PENDING''\<rparr>) ?w1")
  from db_statement_disciplined [OF s1] w1 have w2: "disciplined TxOpen w2" by simp
  show ?thesis
  proof (cases r)
    case (Inl e)
    with s1 w2 show ?thesis
      by (simp add: checkout_transaction_def case_prod_beta io_bind_def)
  next
    case (Inr newOrder)
    let ?w3 = "snd (orderItemValues (order_id newOrder) (items p) w2)"
    have w3: "disciplined TxOpen ?w3"
      using w2 by (simp add: orderItemValues_disciplined)
    obtain r' w4 where s2: "db_statement (insert_orderItems
                 (fst (orderItemValues (order_id newOrder) (items p) w2))) ?w3 = (r', w4)"
      by (cases "db_statement (insert_orderItems
                 (fst (orderItemValues (order_id newOrder) (items p) w2))) ?w3")
    from db_statement_disciplined [OF s2] w3 have w4: "disciplined TxOpen w4" by simp
    have loop: "disciplined TxOpen (snd (decrement_stock ps (order_id newOrder) (items p) w4))"
      using ps w4 by (rule keeps_decrement_stock)
    from Inr s1 s2 w4 loop show ?thesis
      by (cases r'; cases "decrement_stock ps (order_id newOrder) (items p) w4")
         (auto simp add: checkout_transaction_def case_prod_beta io_bind_def io_return_def
            split: sum.splits)
  qed
qed

lemma transaction_disciplined:
  assumes cb: "\<And>w. disciplined TxOpen w \<Longrightarrow> disciplined TxOpen (snd (callback w))"
    and w: "list_all publish_discipline (effects w)"
  shows "list_all publish_discipline (effects (snd (transaction callback w)))
         \<and> (\<forall>r. fst (transaction callback w) = Inr r \<longrightarrow>
                disciplined TxCommitted (snd (transaction callback w)))"
proof -
  let ?w0 = "emit TxBegin (w\<lparr>phase := TxOpen\<rparr>)"
  have "disciplined TxOpen ?w0"
    using w by (simp add: disciplined_def emit_def)
  then have "disciplined TxOpen (snd (callback ?w0))" by (rule cb)
  then show ?thesis
    by (cases "callback ?w0")
       (auto simp add: transaction_def disciplined_def emit_def split: sum.splits)
qed

lemma handleCheckoutCommand_disciplined:
  assumes w: "list_all publish_discipline (effects w)"
  shows "list_all publish_discipline (effects (snd (handleCheckoutCommand event w)))"
proof -
  let ?w1 = "console LOG ''[Commands Webhook] Processing checkout'' w"
  let ?cb = "checkout_transaction (commands_publish_stock (correlation_of event)) (payload event)"
  have w1: "list_all publish_discipline (effects ?w1)"
    using w by (simp add: console_def emit_def)
  have t: "list_all publish_discipline (effects (snd (transaction ?cb ?w1)))
         \<and> (\<forall>r. fst (transaction ?cb ?w1) = Inr r \<longrightarrow>
                disciplined TxCommitted (snd (transaction ?cb ?w1)))"
    by (rule transaction_disciplined [OF _ w1])
       (rule checkout_transaction_disciplined [OF commands_publish_stock_disciplined])
  obtain r w2 where tr: "transaction ?cb ?w1 = (r, w2)" by (cases "transaction ?cb ?w1")
  show ?thesis
  proof (cases r)
    case (Inl e)
    with tr t show ?thesis
      by (simp add: handleCheckoutCommand_def Let_def io_log_bind io_bind_throw)
  next
    case (Inr res)
    with tr t have w2: "disciplined TxCommitted w2" by simp
    let ?rest = "io_bind (io_log LOG ''[Commands Webhook] Order created successfully'')
               (\<lambda>u. io_bind (publishOrderCreated (OrderCreated (order_id res) (userId (payload event)) (items (payload event)) (totalAmount (payload event)) ''PENDING'') (Some (correlation_of event)))
                 (\<lambda>e1. io_bind (io_log LOG ''[Commands Webhook] Published order.created'')
                   (\<lambda>u. io_bind
                          (publishEmailNotification
                             (EmailRequest (customerEmail (payload event))
                                (''Order Confirmation - '' @ order_id res)
                                ''order-confirmation'' ''high'') (Some (correlation_of event)))
                     (\<lambda>e2. io_bind
                             (io_log LOG ''[Commands Webhook] Requested email notification'')
                       (\<lambda>u. io_bind
                              (publishAuditLog
                                 (AuditLog ''order.created'' ''order'' (order_id res)) (Some (correlation_of event)))
                         (\<lambda>e3. io_return ()))))))"
    have "keeps TxCommitted ?rest"
      by (intro keeps_bind keeps_log keeps_return keeps_publishOrderCreated
            keeps_publishEmailNotification keeps_publishAuditLog)
    with w2 have "disciplined TxCommitted (snd (?rest w2))"
      by (simp add: keeps_def)
    moreover have "handleCheckoutCommand event w = ?rest w2"
      using tr Inr
      by (simp add: handleCheckoutCommand_def Let_def io_log_bind io_bind_value [of "transaction _"])
    ultimately show ?thesis
      by (simp add: disciplined_def)
  qed
qed


lemma keeps_os_publish:
  assumes "publish_discipline
             (PublishCall tp ph \<lparr>eventId = [], eventType = evType, version = [], source = [],
                                  correlationId = None, payload = pl\<rparr>)"
  shows "keeps ph (os_publish token tp evType cid pl)"
  using assms
  by (simp add: keeps_def os_publish_def os_event_def os_publishEvent_def randomUUID_def
        disciplined_def console_def emit_def split: prod.splits option.splits)

lemma os_publish_stock_disciplined:
  "disciplined TxOpen w \<Longrightarrow> disciplined TxOpen (os_publish_stock token cid pl w)"
  unfolding os_publish_stock_def
  by (rule fire_and_forget_disciplined [OF keeps_os_publish]) simp

lemma os_handleCheckoutCommand_disciplined:
  assumes w: "list_all publish_discipline (effects w)"
  shows "list_all publish_discipline (effects (snd (os_handleCheckoutCommand token event w)))"
proof -
  let ?w1 = "console LOG ''[Orders Service] Processing checkout'' w"
  let ?cb = "checkout_transaction (os_publish_stock token (correlation_of event)) (payload event)"
  have w1: "list_all publish_discipline (effects ?w1)"
    using w by (simp add: console_def emit_def)
  have t: "list_all publish_discipline (effects (snd (transaction ?cb ?w1)))
         \<and> (\<forall>r. fst (transaction ?cb ?w1) = Inr r \<longrightarrow>
                disciplined TxCommitted (snd (transaction ?cb ?w1)))"
    by (rule transaction_disciplined [OF _ w1])
       (rule checkout_transaction_disciplined [OF os_publish_stock_disciplined])
  obtain r w2 where tr: "transaction ?cb ?w1 = (r, w2)" by (cases "transaction ?cb ?w1")
  show ?thesis
  proof (cases r)
    case (Inl e)
    with tr t show ?thesis
      by (simp add: os_handleCheckoutCommand_def Let_def io_log_bind io_bind_throw)
  next
    case (Inr res)
    with tr t have w2: "disciplined TxCommitted w2" by simp
    let ?cid = "correlation_of event"
    let ?p = "payload event"
    let ?rest = "io_bind (io_log LOG ''[Orders Service] Order created successfully'')
               (\<lambda>u. io_bind (os_publish token ORDERS ''order.created'' ?cid
                               (OrderCreated (order_id res) (userId ?p) (items ?p)
                                  (totalAmount ?p) ''PENDING''))
                 (\<lambda>u. io_bind (io_log LOG ''[Orders Service] Published order.created'')
                   (\<lambda>u. io_bind
                          (os_publish token NOTIFICATIONS ''notification.email'' ?cid
                             (EmailRequest (customerEmail ?p)
                                (''Order Confirmation - '' @ order_id res)
                                ''order-confirmation'' ''high''))
                     (\<lambda>u. io_bind
                            (io_log LOG ''[Orders Service] Requested email notification'')
                       (\<lambda>u. os_publish token ANALYTICS ''analytics.audit'' ?cid
                              (AuditLog ''order.created'' ''order'' (order_id res)))))))"
    have "keeps TxCommitted ?rest"
      by (intro keeps_bind keeps_log keeps_os_publish) simp_all
    with w2 have "disciplined TxCommitted (snd (?rest w2))"
      by (simp add: keeps_def)
    moreover have "os_handleCheckoutCommand token event w = ?rest w2"
      using tr Inr
      by (simp add: os_handleCheckoutCommand_def Let_def io_log_bind
            io_bind_value [of "transaction _"])
    ultimately show ?thesis
      by (simp add: disciplined_def)
  qed
qed

lemma timeline_append: "timeline (xs @ ys) = timeline xs @ timeline ys"
  by (induction xs rule: timeline.induct) simp_all

lemma timeline_console [simp]: "timeline (effects (console l msg w)) = timeline (effects w)"
  by (simp add: console_def emit_def timeline_append)

lemma timeline_emit: "timeline (effects (emit e w)) = timeline (effects w) @ timeline [e]"
  by (simp add: emit_def timeline_append)

lemma timeline_publishEvent:
  "timeline (effects (snd (publishEvent tp event w)))
     = timeline (effects w) @ [Published tp (eventType event)]"
  by (cases "next_fault (publish_faults w)")
     (auto simp add: publishEvent_def timeline_emit emit_def timeline_append split: option.splits)

lemma timeline_publisher:
  "timeline (effects (snd ((case createBaseEvent evType pl src cid w of
                   (event, w1) \<Rightarrow> io_bind (publishEvent tp event) (\<lambda>u. io_return event) w1))))
     = timeline (effects w) @ [Published tp evType]"
proof -
  obtain event w1 where c: "createBaseEvent evType pl src cid w = (event, w1)"
    by (cases "createBaseEvent evType pl src cid w")
  then have e: "eventType event = evType" "effects w1 = effects w"
    by (auto simp add: createBaseEvent_def randomUUID_def)
  obtain r w2 where p: "publishEvent tp event w1 = (r, w2)" by (cases "publishEvent tp event w1")
  with timeline_publishEvent [of tp event w1] e
  have "timeline (effects w2) = timeline (effects w) @ [Published tp evType]" by simp
  with c p show ?thesis
    by (cases r) (simp_all add: io_bind_def io_return_def)
qed

lemma timeline_publishStockUpdate:
  "timeline (effects (snd (publishStockUpdate pl cid w)))
     = timeline (effects w) @ [Published INVENTORY ''inventory.stock.updated'']"
  unfolding publishStockUpdate_def by (rule timeline_publisher)

lemma timeline_publishOrderCreated:
  "timeline (effects (snd (publishOrderCreated pl cid w)))
     = timeline (effects w) @ [Published ORDERS ''order.created'']"
  unfolding publishOrderCreated_def by (rule timeline_publisher)

lemma timeline_publishEmailNotification:
  "timeline (effects (snd (publishEmailNotification pl cid w)))
     = timeline (effects w) @ [Published NOTIFICATIONS ''notification.email'']"
  unfolding publishEmailNotification_def by (rule timeline_publisher)

lemma timeline_publishAuditLog:
  "timeline (effects (snd (publishAuditLog pl cid w)))
     = timeline (effects w) @ [Published ANALYTICS ''analytics.audit'']"
  unfolding publishAuditLog_def by (rule timeline_publisher)

lemma timeline_commands_publish_stock:
  "timeline (effects (commands_publish_stock cid pl w))
     = timeline (effects w) @ [Published INVENTORY ''inventory.stock.updated'']"
  using timeline_publishStockUpdate [of pl "Some cid" w]
  by (cases "publishStockUpdate pl (Some cid) w")
     (auto simp add: commands_publish_stock_def fire_and_forget_def split: sum.splits)

lemma db_statement_effects: "db_statement run w = (r, w1) \<Longrightarrow> effects w1 = effects w"
  by (auto simp add: db_statement_def split: prod.splits option.splits)

lemma timeline_decrement_stock:
  assumes ps: "\<And>pl w. timeline (effects (ps pl w)) = timeline (effects w) @ [m]"
  shows "fst (decrement_stock ps oid its w) = Inr () \<Longrightarrow>
         timeline (effects (snd (decrement_stock ps oid its w)))
           = timeline (effects w) @ replicate (length its) m"
proof (induction its arbitrary: w)
  case Nil
  then show ?case by simp
next
  case (Cons item rest)
  then show ?case
    by (auto simp add: Let_def ps db_statement_effects replicate_append_same
          split: prod.splits sum.splits if_splits)
qed


lemma orderItemValues_effects [simp]:
  "effects (snd (orderItemValues oid its w)) = effects w"
  by (induction its arbitrary: w) (simp_all add: randomUUID_def case_prod_beta)

lemma timeline_checkout_transaction:
  assumes ps: "\<And>pl w. timeline (effects (ps pl w)) = timeline (effects w) @ [m]"
    and ok: "fst (checkout_transaction ps p w) = Inr row"
  shows "timeline (effects (snd (checkout_transaction ps p w)))
           = timeline (effects w) @ replicate (length (items p)) m"
proof -
  let ?w1 = "snd (randomUUID w)"
  let ?row = "\<lparr>order_id = fst (randomUUID w), order_userId = userId p,
                    order_customerName = customerName p,
                    order_customerEmail = customerEmail p,
                    order_customerAddress = customerAddress p,
                    order_totalAmount = totalAmount p, order_status = ''PENDING''\<rparr>"
  have e1: "effects ?w1 = effects w" by (simp add: randomUUID_def)
  obtain r w2 where s1: "db_statement (insert_order ?row) ?w1 = (r, w2)"
    by (cases "db_statement (insert_order ?row) ?w1")
  from db_statement_effects [OF s1] e1 have e2: "effects w2 = effects w" by simp
  show ?thesis
  proof (cases r)
    case (Inl e)
    with s1 ok show ?thesis
      by (simp add: checkout_transaction_def case_prod_beta io_bind_def)
  next
    case (Inr newOrder)
    let ?w3 = "snd (orderItemValues (order_id newOrder) (items p) w2)"
    have e3: "effects ?w3 = effects w" using e2 by simp
    obtain r' w4 where s2: "db_statement (insert_orderItems
                 (fst (orderItemValues (order_id newOrder) (items p) w2))) ?w3 = (r', w4)"
      by (cases "db_statement (insert_orderItems
                 (fst (orderItemValues (order_id newOrder) (items p) w2))) ?w3")
    from db_statement_effects [OF s2] e3 have e4: "effects w4 = effects w" by simp
    show ?thesis
    proof (cases r')
      case (Inl e)
      with Inr s1 s2 ok show ?thesis
        by (simp add: checkout_transaction_def case_prod_beta io_bind_def)
    next
      case u: (Inr u)
      obtain r'' w5 where l: "decrement_stock ps (order_id newOrder) (items p) w4 = (r'', w5)"
        by (cases "decrement_stock ps (order_id newOrder) (items p) w4")
      from Inr u s1 s2 l
      have c: "checkout_transaction ps p w
                 = (case r'' of Inl e \<Rightarrow> (Inl e, w5) | Inr u' \<Rightarrow> (Inr newOrder, w5))"
        by (simp add: checkout_transaction_def case_prod_beta io_bind_def io_return_def
              split: sum.splits)
      with ok have "r'' = Inr ()" by (cases r'') simp_all
      with l timeline_decrement_stock [of ps m "order_id newOrder" "items p" w4, OF ps] e4
      have "timeline (effects w5) = timeline (effects w) @ replicate (length (items p)) m"
        by simp
      with c \<open>r'' = Inr ()\<close> show ?thesis by simp
    qed
  qed
qed

lemma timeline_transaction:
  assumes "fst (transaction callback w) = Inr r"
  shows "fst (callback (emit TxBegin (w\<lparr>phase := TxOpen\<rparr>))) = Inr r
         \<and> timeline (effects (snd (transaction callback w)))
             = timeline (effects (snd (callback (emit TxBegin (w\<lparr>phase := TxOpen\<rparr>))))) @ [Commit]"
  using assms
  by (cases "callback (emit TxBegin (w\<lparr>phase := TxOpen\<rparr>))")
     (auto simp add: transaction_def emit_def timeline_append split: sum.splits)


lemma handleCheckoutCommand_timeline:
  assumes ok: "fst (handleCheckoutCommand event w) = Inr ()"
  shows "timeline (effects (snd (handleCheckoutCommand event w)))
           = timeline (effects w) @ [Begin]
             @ replicate (length (items (payload event)))
                 (Published INVENTORY ''inventory.stock.updated'')
             @ [Commit, Published ORDERS ''order.created'',
                Published NOTIFICATIONS ''notification.email'',
                Published ANALYTICS ''analytics.audit'']"
proof -
  let ?p = "payload event"
  let ?cid = "correlation_of event"
  let ?w1 = "console LOG ''[Commands Webhook] Processing checkout'' w"
  let ?cb = "checkout_transaction (commands_publish_stock ?cid) ?p"
  let ?K3 = "\<lambda>res (e2 :: out_payload event). io_bind
                 (io_log LOG ''[Commands Webhook] Requested email notification'')
                 (\<lambda>u. io_bind
                        (publishAuditLog (AuditLog ''order.created'' ''order'' (order_id res))
                           (Some ?cid))
                        (\<lambda>e3. io_return ()))"
  let ?K2 = "\<lambda>res (e1 :: out_payload event). io_bind
                 (io_log LOG ''[Commands Webhook] Published order.created'')
                 (\<lambda>u. io_bind
                        (publishEmailNotification
                           (EmailRequest (customerEmail ?p)
                              (''Order Confirmation - '' @ order_id res)
                              ''order-confirmation'' ''high'') (Some ?cid))
                        (?K3 res))"
  let ?K1 = "\<lambda>res. io_bind (io_log LOG ''[Commands Webhook] Order created successfully'')
                 (\<lambda>u. io_bind
                        (publishOrderCreated
                           (OrderCreated (order_id res) (userId ?p) (items ?p) (totalAmount ?p)
                              ''PENDING'') (Some ?cid))
                        (?K2 res))"
  have h: "handleCheckoutCommand event w = io_bind (transaction ?cb) ?K1 ?w1"
    by (simp add: handleCheckoutCommand_def Let_def io_log_bind)
  with ok obtain res where t: "fst (transaction ?cb ?w1) = Inr res"
    and h1: "handleCheckoutCommand event w = ?K1 res (snd (transaction ?cb ?w1))"
    by (auto elim: io_bind_resolves)
  let ?w2 = "snd (transaction ?cb ?w1)"
  let ?w0 = "emit TxBegin (?w1\<lparr>phase := TxOpen\<rparr>)"
  from timeline_transaction [OF t]
  have c: "fst (?cb ?w0) = Inr res"
    and tw2: "timeline (effects ?w2) = timeline (effects (snd (?cb ?w0))) @ [Commit]"
    by simp_all
  have "timeline (effects (snd (?cb ?w0)))
          = timeline (effects ?w0)
            @ replicate (length (items ?p)) (Published INVENTORY ''inventory.stock.updated'')"
    by (rule timeline_checkout_transaction [OF timeline_commands_publish_stock c])
  with tw2
  have t2: "timeline (effects ?w2)
              = timeline (effects w) @ [Begin]
                @ replicate (length (items ?p)) (Published INVENTORY ''inventory.stock.updated'')
                @ [Commit]"
    by (simp add: timeline_emit)
  let ?w3 = "console LOG ''[Commands Webhook] Order created successfully'' ?w2"
  let ?m1 = "publishOrderCreated
               (OrderCreated (order_id res) (userId ?p) (items ?p) (totalAmount ?p) ''PENDING'')
               (Some ?cid)"
  from h1 have h2: "handleCheckoutCommand event w = io_bind ?m1 (?K2 res) ?w3"
    by (simp add: io_log_bind)
  with ok obtain e1 where h3: "handleCheckoutCommand event w = ?K2 res e1 (snd (?m1 ?w3))"
    by (auto elim: io_bind_resolves)
  let ?w4 = "snd (?m1 ?w3)"
  have t4: "timeline (effects ?w4) = timeline (effects ?w2) @ [Published ORDERS ''order.created'']"
    by (simp add: timeline_publishOrderCreated)
  let ?w5 = "console LOG ''[Commands Webhook] Published order.created'' ?w4"
  let ?m2 = "publishEmailNotification
               (EmailRequest (customerEmail ?p) (''Order Confirmation - '' @ order_id res)
                  ''order-confirmation'' ''high'') (Some ?cid)"
  from h3 have h4: "handleCheckoutCommand event w = io_bind ?m2 (?K3 res) ?w5"
    by (simp add: io_log_bind)
  with ok obtain e2 where h5: "handleCheckoutCommand event w = ?K3 res e2 (snd (?m2 ?w5))"
    by (auto elim: io_bind_resolves)
  let ?w6 = "snd (?m2 ?w5)"
  have t6: "timeline (effects ?w6)
              = timeline (effects ?w4) @ [Published NOTIFICATIONS ''notification.email'']"
    by (simp add: timeline_publishEmailNotification)
  let ?w7 = "console LOG ''[Commands Webhook] Requested email notification'' ?w6"
  let ?m3 = "publishAuditLog (AuditLog ''order.created'' ''order'' (order_id res)) (Some ?cid)"
  from h5 have h6: "handleCheckoutCommand event w = io_bind ?m3 (\<lambda>e3. io_return ()) ?w7"
    by (simp add: io_log_bind)
  with ok obtain e3 where h7: "handleCheckoutCommand event w = io_return () (snd (?m3 ?w7))"
    by (auto elim: io_bind_resolves)
  have t8: "timeline (effects (snd (?m3 ?w7)))
              = timeline (effects ?w6) @ [Published ANALYTICS ''analytics.audit'']"
    by (simp add: timeline_publishAuditLog)
  from h7 t8 t6 t4 t2 show ?thesis
    by (simp add: io_return_def)
qed

lemma timeline_os_publish:
  "truthy token \<Longrightarrow>
     timeline (effects (snd (os_publish token tp evType cid pl w)))
       = timeline (effects w) @ [Published tp evType]"
  by (cases "next_fault (publish_faults w)")
     (auto simp add: os_publish_def os_event_def os_publishEvent_def randomUUID_def emit_def
        timeline_append split: option.splits)

lemma timeline_os_publish_stock:
  "truthy token \<Longrightarrow>
     timeline (effects (os_publish_stock token cid pl w))
       = timeline (effects w) @ [Published INVENTORY ''inventory.stock.updated'']"
  using timeline_os_publish [of token INVENTORY "''inventory.stock.updated''" cid pl w]
  by (cases "os_publish token INVENTORY ''inventory.stock.updated'' cid pl w")
     (auto simp add: os_publish_stock_def fire_and_forget_def split: sum.splits)

lemma os_handleCheckoutCommand_timeline:
  assumes tok: "truthy token"
    and ok: "fst (os_handleCheckoutCommand token event w) = Inr ()"
  shows "timeline (effects (snd (os_handleCheckoutCommand token event w)))
           = timeline (effects w) @ [Begin]
             @ replicate (length (items (payload event)))
                 (Published INVENTORY ''inventory.stock.updated'')
             @ [Commit, Published ORDERS ''order.created'',
                Published NOTIFICATIONS ''notification.email'',
                Published ANALYTICS ''analytics.audit'']"
proof -
  let ?p = "payload event"
  let ?cid = "correlation_of event"
  let ?w1 = "console LOG ''[Orders Service] Processing checkout'' w"
  let ?cb = "checkout_transaction (os_publish_stock token ?cid) ?p"
  let ?m3 = "\<lambda>res. os_publish token ANALYTICS ''analytics.audit'' ?cid
                     (AuditLog ''order.created'' ''order'' (order_id res))"
  let ?m2 = "\<lambda>res. os_publish token NOTIFICATIONS ''notification.email'' ?cid
                     (EmailRequest (customerEmail ?p) (''Order Confirmation - '' @ order_id res)
                        ''order-confirmation'' ''high'')"
  let ?m1 = "\<lambda>res. os_publish token ORDERS ''order.created'' ?cid
                     (OrderCreated (order_id res) (userId ?p) (items ?p) (totalAmount ?p)
                        ''PENDING'')"
  let ?K3 = "\<lambda>res (u :: unit). io_bind
                 (io_log LOG ''[Orders Service] Requested email notification'')
                 (\<lambda>u. ?m3 res)"
  let ?K2 = "\<lambda>res (u :: unit). io_bind
                 (io_log LOG ''[Orders Service] Published order.created'')
                 (\<lambda>u. io_bind (?m2 res) (?K3 res))"
  let ?K1 = "\<lambda>res. io_bind (io_log LOG ''[Orders Service] Order created successfully'')
                 (\<lambda>u. io_bind (?m1 res) (?K2 res))"
  have h: "os_handleCheckoutCommand token event w = io_bind (transaction ?cb) ?K1 ?w1"
    by (simp add: os_handleCheckoutCommand_def Let_def io_log_bind)
  with ok obtain res where t: "fst (transaction ?cb ?w1) = Inr res"
    and h1: "os_handleCheckoutCommand token event w = ?K1 res (snd (transaction ?cb ?w1))"
    by (auto elim: io_bind_resolves)
  let ?w2 = "snd (transaction ?cb ?w1)"
  let ?w0 = "emit TxBegin (?w1\<lparr>phase := TxOpen\<rparr>)"
  from timeline_transaction [OF t]
  have c: "fst (?cb ?w0) = Inr res"
    and tw2: "timeline (effects ?w2) = timeline (effects (snd (?cb ?w0))) @ [Commit]"
    by simp_all
  have "timeline (effects (snd (?cb ?w0)))
          = timeline (effects ?w0)
            @ replicate (length (items ?p)) (Published INVENTORY ''inventory.stock.updated'')"
    by (rule timeline_checkout_transaction [OF timeline_os_publish_stock [OF tok] c])
  with tw2
  have t2: "timeline (effects ?w2)
              = timeline (effects w) @ [Begin]
                @ replicate (length (items ?p)) (Published INVENTORY ''inventory.stock.updated'')
                @ [Commit]"
    by (simp add: timeline_emit)
  let ?w3 = "console LOG ''[Orders Service] Order created successfully'' ?w2"
  from h1 have h2: "os_handleCheckoutCommand token event w = io_bind (?m1 res) (?K2 res) ?w3"
    by (simp add: io_log_bind)
  with ok obtain u1 where h3: "os_handleCheckoutCommand token event w = ?K2 res u1 (snd (?m1 res ?w3))"
    by (auto elim: io_bind_resolves)
  let ?w4 = "snd (?m1 res ?w3)"
  have t4: "timeline (effects ?w4) = timeline (effects ?w2) @ [Published ORDERS ''order.created'']"
    by (simp add: timeline_os_publish [OF tok])
  let ?w5 = "console LOG ''[Orders Service] Published order.created'' ?w4"
  from h3 have h4: "os_handleCheckoutCommand token event w = io_bind (?m2 res) (?K3 res) ?w5"
    by (simp add: io_log_bind)
  with ok obtain u2 where h5: "os_handleCheckoutCommand token event w = ?K3 res u2 (snd (?m2 res ?w5))"
    by (auto elim: io_bind_resolves)
  let ?w6 = "snd (?m2 res ?w5)"
  have t6: "timeline (effects ?w6)
              = timeline (effects ?w4) @ [Published NOTIFICATIONS ''notification.email'']"
    by (simp add: timeline_os_publish [OF tok])
  let ?w7 = "console LOG ''[Orders Service] Requested email notification'' ?w6"
  from h5 have h6: "os_handleCheckoutCommand token event w = ?m3 res ?w7"
    by (simp add: io_log_bind)
  have t8: "timeline (effects (snd (?m3 res ?w7)))
              = timeline (effects ?w6) @ [Published ANALYTICS ''analytics.audit'']"
    by (simp add: timeline_os_publish [OF tok])
  from h6 t8 t6 t4 t2 show ?thesis
    by simp
qed

text \<open>
  Claim C3, as amended. A checkout that the handler processes to the end (in
  the commands route, and in the orders service when its token is set)
  publishes one stock update per line item between the begin and the commit
  of the transaction, and \<open>order.created\<close>, \<open>notification.email\<close> and
  \<open>analytics.audit\<close>, in this order, after the commit. In every run of either
  handler, whatever fails, every \<open>inventory.stock.updated\<close> publish call is
  issued to the inventory topic while the transaction is open, and every other
  publish call is issued after the transaction has committed.
\<close>

theorem C3_publish_discipline:
  "(list_all publish_discipline (effects w) \<longrightarrow>
      list_all publish_discipline (effects (snd (handleCheckoutCommand event w)))
      \<and> list_all publish_discipline
           (effects (snd (os_handleCheckoutCommand token event w))))
   \<and> (fst (handleCheckoutCommand event w) = Inr () \<longrightarrow>
      timeline (effects (snd (handleCheckoutCommand event w)))
        = timeline (effects w) @ [Begin]
          @ replicate (length (items (payload event)))
              (Published INVENTORY ''inventory.stock.updated'')
          @ [Commit, Published ORDERS ''order.created'',
             Published NOTIFICATIONS ''notification.email'',
             Published ANALYTICS ''analytics.audit''])
   \<and> (truthy token \<and> fst (os_handleCheckoutCommand token event w) = Inr () \<longrightarrow>
      timeline (effects (snd (os_handleCheckoutCommand token event w)))
        = timeline (effects w) @ [Begin]
          @ replicate (length (items (payload event)))
              (Published INVENTORY ''inventory.stock.updated'')
          @ [Commit, Published ORDERS ''order.created'',
             Published NOTIFICATIONS ''notification.email'',
             Published ANALYTICS ''analytics.audit''])"
  using handleCheckoutCommand_disciplined os_handleCheckoutCommand_disciplined
    handleCheckoutCommand_timeline os_handleCheckoutCommand_timeline
  by blast

theorem C3_publish_discipline_witness:
  "list_all publish_discipline (effects (snd (handleCheckoutCommand checkout_AB shop)))
   \<and> list_all publish_discipline
        (effects (snd (os_handleCheckoutCommand (Some ''token'') checkout_AB shop)))
   \<and> timeline (effects (snd (handleCheckoutCommand checkout_AB shop)))
       = [Begin, Published INVENTORY ''inventory.stock.updated'',
          Published INVENTORY ''inventory.stock.updated'', Commit,
          Published ORDERS ''order.created'', Published NOTIFICATIONS ''notification.email'',
          Published ANALYTICS ''analytics.audit'']
   \<and> timeline (effects (snd (os_handleCheckoutCommand (Some ''token'') checkout_AB shop)))
       = [Begin, Published INVENTORY ''inventory.stock.updated'',
          Published INVENTORY ''inventory.stock.updated'', Commit,
          Published ORDERS ''order.created'', Published NOTIFICATIONS ''notification.email'',
          Published ANALYTICS ''analytics.audit'']"
proof -
  have ok: "fst (handleCheckoutCommand checkout_AB shop) = Inr ()"
    by code_simp
  have os_ok: "fst (os_handleCheckoutCommand (Some ''token'') checkout_AB shop) = Inr ()"
    by code_simp
  have n: "length (items (payload checkout_AB)) = Suc (Suc 0)"
    by (simp add: checkout_AB_def checkout_with_def)
  have e: "effects shop = []"
    by (simp add: shop_def)
  from C3_publish_discipline [of shop checkout_AB "Some ''token''"] ok os_ok n e
  show ?thesis by simp
qed

text \<open>
  Claim C3 as stated fails on a checkout of one line item: the stock update is
  published between the begin and the commit of the transaction.
\<close>

theorem C3_counterexample:
  "timeline (effects (snd (handleCheckoutCommand checkout_A shop)))
     = [Begin, Published INVENTORY ''inventory.stock.updated'', Commit,
        Published ORDERS ''order.created'', Published NOTIFICATIONS ''notification.email'',
        Published ANALYTICS ''analytics.audit'']
   \<and> \<not> list_all issued_after_commit (effects (snd (handleCheckoutCommand checkout_A shop)))"
  by code_simp

section \<open>How a thrown value is answered\<close>

lemma startsWith_iff: "startsWith s sub \<longleftrightarrow> (\<exists>post. s = sub @ post)"
  by (induction s sub rule: startsWith.induct) auto

lemma includes_str_iff: "includes_str s sub \<longleftrightarrow> (\<exists>pre post. s = pre @ sub @ post)"
proof (induction s)
  case Nil
  show ?case by auto
next
  case (Cons x xs)
  show ?case
  proof
    assume "includes_str (x # xs) sub"
    then consider "startsWith (x # xs) sub" | "includes_str xs sub" by auto
    then show "\<exists>pre post. x # xs = pre @ sub @ post"
    proof cases
      case 1
      then obtain post where "x # xs = sub @ post" by (auto simp add: startsWith_iff)
      then have "x # xs = [] @ sub @ post" by simp
      then show ?thesis by blast
    next
      case 2
      with Cons obtain pre post where "xs = pre @ sub @ post" by auto
      then have "x # xs = (x # pre) @ sub @ post" by simp
      then show ?thesis by blast
    qed
  next
    assume "\<exists>pre post. x # xs = pre @ sub @ post"
    then obtain pre post where e: "x # xs = pre @ sub @ post" by auto
    show "includes_str (x # xs) sub"
    proof (cases pre)
      case Nil
      with e have "startsWith (x # xs) sub" by (auto simp add: startsWith_iff)
      then show ?thesis by simp
    next
      case (Cons y pre')
      with e have "xs = pre' @ sub @ post" by simp
      with Cons.IH have "includes_str xs sub" by auto
      then show ?thesis by simp
    qed
  qed
qed

lemma unconfigured_throws:
  assumes "\<not> truthy (currentSigningKey ev) \<or> \<not> truthy (nextSigningKey ev)"
    and "NODE_ENV ev \<noteq> Some ''development''"
  shows "io_bind (verifyQStashSignature ev rq) f w
           = (Inl (JsError ''QStash signing keys not configured''),
              console WARN
                ''[QStash] Signing keys not configured - skipping verification (DEV mode)'' w)"
  using assms by (auto simp add: io_bind_def verifyQStashSignature_def Let_def)

lemma keys_error_not_signature:
  "\<not> is_signature_error (JsError ''QStash signing keys not configured'')"
  by simp

lemma verify_rejections_are_signature_errors:
  assumes "truthy (currentSigningKey ev)" "truthy (nextSigningKey ev)"
    and "fst (verifyQStashSignature ev rq w) = Inl e"
  shows "is_signature_error e"
  using assms
  by (auto simp add: verifyQStashSignature_def split: if_splits sum.splits)

lemma unconfigured_production_try:
  "commands_try unconfigured_production_env rq shop
     = (Inl (JsError ''QStash signing keys not configured''),
        console WARN ''[QStash] Signing keys not configured - skipping verification (DEV mode)'' shop)"
  "orders_try unconfigured_production_env rq shop
     = (Inl (JsError ''QStash signing keys not configured''),
        console WARN ''[QStash] Signing keys not configured - skipping verification (DEV mode)'' shop)"
  "inventory_try unconfigured_production_env rq shop
     = (Inl (JsError ''QStash signing keys not configured''),
        console WARN ''[QStash] Signing keys not configured - skipping verification (DEV mode)'' shop)"
  "analytics_try unconfigured_production_env rq shop
     = (Inl (JsError ''QStash signing keys not configured''),
        console WARN ''[QStash] Signing keys not configured - skipping verification (DEV mode)'' shop)"
  "notifications_try unconfigured_notifications_env rq shop
     = (Inl (JsError ''QStash signing keys not configured''),
        console WARN ''[QStash] Signing keys not configured - skipping verification (DEV mode)'' shop)"
  by (simp_all add: commands_try_def orders_try_def inventory_try_def analytics_try_def
        notifications_try_def unconfigured_throws unconfigured_production_env_def
        development_env_def unconfigured_notifications_env_def notifications_env_def)

lemma service_parse_failure:
  "os_try service_env (post_of b) w
     = (case parse_checkout b of Inl error \<Rightarrow> (Inl error, w) | Inr event \<Rightarrow> os_try service_env (post_of b) w)"
  by (simp add: os_try_def service_env_def post_of_def signed_by_def io_throw_def split: sum.splits)

lemma missing_header_try:
  "commands_try production_env (unsigned_post_of b) w
     = (Inl (JsError ''Missing upstash-signature header''), w)"
  by (simp add: commands_try_def io_bind_def verifyQStashSignature_def production_env_def
        development_env_def unsigned_post_of_def)

text \<open>
  Claim C10, as amended. In the five consumers built on the shared verifier
  (commands, orders, inventory, analytics, notifications) a value thrown in the
  \<^verbatim>\<open>try\<close> block is answered 401 if it is an error whose message contains
  ``signature'' and 500 otherwise; the error thrown for unconfigured signing
  keys outside development has no such message and is answered 500. The orders
  service, which calls the receiver inline, answers a missing signature
  header, a receiver that throws and a receiver that returns false with 401
  without throwing, and answers every value thrown in its \<^verbatim>\<open>try\<close> block with
  500.
\<close>

theorem C10_catch_classification:
  "(commands_try evC rqC wC = (Inl errC, wC') \<longrightarrow>
      status (fst (commands_POST evC rqC wC)) = (if is_signature_error errC then 401 else 500))
   \<and> (orders_try evO rqO wO = (Inl errO, wO') \<longrightarrow>
      status (fst (orders_POST evO rqO wO)) = (if is_signature_error errO then 401 else 500))
   \<and> (inventory_try evI rqI wI = (Inl errI, wI') \<longrightarrow>
      status (fst (inventory_POST evI rqI wI)) = (if is_signature_error errI then 401 else 500))
   \<and> (analytics_try evA rqA wA = (Inl errA, wA') \<longrightarrow>
      status (fst (analytics_POST evA rqA wA)) = (if is_signature_error errA then 401 else 500))
   \<and> (notifications_try evN rqN wN = (Inl errN, wN') \<longrightarrow>
      status (fst (notifications_POST evN rqN wN)) = (if is_signature_error errN then 401 else 500))
   \<and> (os_try evS rqS wS = (Inl errS, wS') \<longrightarrow> status (fst (os_POST evS rqS wS)) = 500)
   \<and> (\<not> truthy (upstash_signature rqM) \<longrightarrow>
      fst (os_POST evM rqM wM) = \<lparr>status = 401, json = ErrorResponse ''Missing signature'' None\<rparr>)
   \<and> (truthy (upstash_signature rqT)
        \<and> receiver_verify evT (or_empty (currentSigningKey evT)) (or_empty (nextSigningKey evT))
              (the (upstash_signature rqT)) (body rqT) = Inl errT \<longrightarrow>
      fst (os_POST evT rqT wT)
        = \<lparr>status = 401, json = ErrorResponse ''Signature verification failed'' None\<rparr>)
   \<and> (truthy (upstash_signature rqF)
        \<and> receiver_verify evF (or_empty (currentSigningKey evF)) (or_empty (nextSigningKey evF))
              (the (upstash_signature rqF)) (body rqF) = Inr False \<longrightarrow>
      fst (os_POST evF rqF wF) = \<lparr>status = 401, json = ErrorResponse ''Invalid signature'' None\<rparr>)
   \<and> is_signature_error (JsError m) = (\<exists>pre post. m = pre @ ''signature'' @ post)
   \<and> \<not> is_signature_error (JsValue v)
   \<and> ((\<not> truthy (currentSigningKey evC) \<or> \<not> truthy (nextSigningKey evC))
        \<and> NODE_ENV evC \<noteq> Some ''development'' \<longrightarrow>
      fst (commands_POST evC rqC wC)
        = \<lparr>status = 500,
           json = ErrorResponse ''Processing failed''
                    (Some ''QStash signing keys not configured'')\<rparr>)
   \<and> ((\<not> truthy (currentSigningKey evN) \<or> \<not> truthy (nextSigningKey evN))
        \<and> NODE_ENV evN \<noteq> Some ''development'' \<longrightarrow>
      fst (notifications_POST evN rqN wN)
        = \<lparr>status = 500,
           json = ErrorResponse ''Processing failed''
                    (Some ''QStash signing keys not configured'')\<rparr>)
   \<and> ((\<not> truthy (currentSigningKey evO) \<or> \<not> truthy (nextSigningKey evO))
        \<and> NODE_ENV evO \<noteq> Some ''development'' \<longrightarrow>
      fst (orders_POST evO rqO wO)
        = \<lparr>status = 500,
           json = ErrorResponse ''Processing failed''
                    (Some ''QStash signing keys not configured'')\<rparr>)
   \<and> ((\<not> truthy (currentSigningKey evI) \<or> \<not> truthy (nextSigningKey evI))
        \<and> NODE_ENV evI \<noteq> Some ''development'' \<longrightarrow>
      fst (inventory_POST evI rqI wI)
        = \<lparr>status = 500,
           json = ErrorResponse ''Processing failed''
                    (Some ''QStash signing keys not configured'')\<rparr>)
   \<and> ((\<not> truthy (currentSigningKey evA) \<or> \<not> truthy (nextSigningKey evA))
        \<and> NODE_ENV evA \<noteq> Some ''development'' \<longrightarrow>
      fst (analytics_POST evA rqA wA)
        = \<lparr>status = 500,
           json = ErrorResponse ''Processing failed''
                    (Some ''QStash signing keys not configured'')\<rparr>)"
proof (intro conjI impI)
  assume "commands_try evC rqC wC = (Inl errC, wC')"
  then show "status (fst (commands_POST evC rqC wC)) = (if is_signature_error errC then 401 else 500)"
    by (simp add: commands_POST_def route_throw commands_catch_def)
next
  assume "orders_try evO rqO wO = (Inl errO, wO')"
  then show "status (fst (orders_POST evO rqO wO)) = (if is_signature_error errO then 401 else 500)"
    by (simp add: orders_POST_def route_throw topic_catch_def)
next
  assume "inventory_try evI rqI wI = (Inl errI, wI')"
  then show "status (fst (inventory_POST evI rqI wI)) = (if is_signature_error errI then 401 else 500)"
    by (simp add: inventory_POST_def route_throw topic_catch_def)
next
  assume "analytics_try evA rqA wA = (Inl errA, wA')"
  then show "status (fst (analytics_POST evA rqA wA)) = (if is_signature_error errA then 401 else 500)"
    by (simp add: analytics_POST_def route_throw topic_catch_def)
next
  assume "notifications_try evN rqN wN = (Inl errN, wN')"
  then show "status (fst (notifications_POST evN rqN wN)) = (if is_signature_error errN then 401 else 500)"
    by (simp add: notifications_POST_def route_throw topic_catch_def)
next
  assume "os_try evS rqS wS = (Inl errS, wS')"
  then show "status (fst (os_POST evS rqS wS)) = 500"
    by (simp add: os_POST_def route_throw os_catch_def)
next
  assume "\<not> truthy (upstash_signature rqM)"
  then show "fst (os_POST evM rqM wM)
               = \<lparr>status = 401, json = ErrorResponse ''Missing signature'' None\<rparr>"
    by (simp add: os_POST_def route_def os_try_def io_log_bind io_return_def)
next
  assume "truthy (upstash_signature rqT)
        \<and> receiver_verify evT (or_empty (currentSigningKey evT)) (or_empty (nextSigningKey evT))
              (the (upstash_signature rqT)) (body rqT) = Inl errT"
  then show "fst (os_POST evT rqT wT)
        = \<lparr>status = 401, json = ErrorResponse ''Signature verification failed'' None\<rparr>"
    by (simp add: os_POST_def route_def os_try_def io_log_bind io_return_def)
next
  assume "truthy (upstash_signature rqF)
        \<and> receiver_verify evF (or_empty (currentSigningKey evF)) (or_empty (nextSigningKey evF))
              (the (upstash_signature rqF)) (body rqF) = Inr False"
  then show "fst (os_POST evF rqF wF)
               = \<lparr>status = 401, json = ErrorResponse ''Invalid signature'' None\<rparr>"
    by (simp add: os_POST_def route_def os_try_def io_log_bind io_return_def)
next
  show "is_signature_error (JsError m) = (\<exists>pre post. m = pre @ ''signature'' @ post)"
    by (simp add: includes_str_iff)
next
  show "\<not> is_signature_error (JsValue v)" by simp
next
  assume "(\<not> truthy (currentSigningKey evC) \<or> \<not> truthy (nextSigningKey evC))
        \<and> NODE_ENV evC \<noteq> Some ''development''"
  then show "fst (commands_POST evC rqC wC)
        = \<lparr>status = 500,
           json = ErrorResponse ''Processing failed''
                    (Some ''QStash signing keys not configured'')\<rparr>"
    by (simp add: commands_POST_def commands_try_def unconfigured_throws route_throw
          commands_catch_def)
next
  assume "(\<not> truthy (currentSigningKey evN) \<or> \<not> truthy (nextSigningKey evN))
        \<and> NODE_ENV evN \<noteq> Some ''development''"
  then show "fst (notifications_POST evN rqN wN)
        = \<lparr>status = 500,
           json = ErrorResponse ''Processing failed''
                    (Some ''QStash signing keys not configured'')\<rparr>"
    by (simp add: notifications_POST_def notifications_try_def unconfigured_throws route_throw
          topic_catch_def)
next
  assume "(\<not> truthy (currentSigningKey evO) \<or> \<not> truthy (nextSigningKey evO))
        \<and> NODE_ENV evO \<noteq> Some ''development''"
  then show "fst (orders_POST evO rqO wO)
        = \<lparr>status = 500,
           json = ErrorResponse ''Processing failed''
                    (Some ''QStash signing keys not configured'')\<rparr>"
    by (simp add: orders_POST_def orders_try_def unconfigured_throws route_throw topic_catch_def)
next
  assume "(\<not> truthy (currentSigningKey evI) \<or> \<not> truthy (nextSigningKey evI))
        \<and> NODE_ENV evI \<noteq> Some ''development''"
  then show "fst (inventory_POST evI rqI wI)
        = \<lparr>status = 500,
           json = ErrorResponse ''Processing failed''
                    (Some ''QStash signing keys not configured'')\<rparr>"
    by (simp add: inventory_POST_def inventory_try_def unconfigured_throws route_throw topic_catch_def)
next
  assume "(\<not> truthy (currentSigningKey evA) \<or> \<not> truthy (nextSigningKey evA))
        \<and> NODE_ENV evA \<noteq> Some ''development''"
  then show "fst (analytics_POST evA rqA wA)
        = \<lparr>status = 500,
           json = ErrorResponse ''Processing failed''
                    (Some ''QStash signing keys not configured'')\<rparr>"
    by (simp add: analytics_POST_def analytics_try_def unconfigured_throws route_throw topic_catch_def)
qed

theorem C10_catch_classification_witness:
  "status (fst (commands_POST unconfigured_production_env (unsigned_post_of ''checkout_A'') shop)) = 500
   \<and> status (fst (orders_POST unconfigured_production_env (unsigned_post_of ''checkout_A'') shop)) = 500
   \<and> status (fst (inventory_POST unconfigured_production_env (unsigned_post_of ''checkout_A'') shop)) = 500
   \<and> status (fst (analytics_POST unconfigured_production_env (unsigned_post_of ''checkout_A'') shop)) = 500
   \<and> status (fst (notifications_POST unconfigured_notifications_env (unsigned_post_of ''sms'') shop)) = 500
   \<and> status (fst (os_POST service_env (post_of ''signature'') shop)) = 500
   \<and> status (fst (commands_POST production_env (unsigned_post_of ''checkout_A'') shop)) = 401
   \<and> status (fst (os_POST service_env (unsigned_post_of ''checkout_A'') shop)) = 401
   \<and> status (fst (os_POST throwing_service_env (post_of ''checkout_A'') shop)) = 401
   \<and> status (fst (os_POST service_env (forged_post_of ''checkout_A'') shop)) = 401"
proof -
  let ?w = "console WARN
              ''[QStash] Signing keys not configured - skipping verification (DEV mode)'' shop"
  let ?e = "JsError ''QStash signing keys not configured''"
  have s: "os_try service_env (post_of ''signature'') shop
             = (Inl (JsError ''Unexpected token in JSON: signature''), shop)"
    by (simp add: service_parse_failure parse_checkout_def)
  have n: "\<not> is_signature_error ?e" by simp
  have y: "is_signature_error (JsError ''Missing upstash-signature header'')" by simp
  from C10_catch_classification
         [where evC = unconfigured_production_env and rqC = "unsigned_post_of ''checkout_A''"
            and wC = shop and errC = ?e and wC' = ?w
            and evO = unconfigured_production_env and rqO = "unsigned_post_of ''checkout_A''"
            and wO = shop and errO = ?e and wO' = ?w
            and evI = unconfigured_production_env and rqI = "unsigned_post_of ''checkout_A''"
            and wI = shop and errI = ?e and wI' = ?w
            and evA = unconfigured_production_env and rqA = "unsigned_post_of ''checkout_A''"
            and wA = shop and errA = ?e and wA' = ?w
            and evN = unconfigured_notifications_env and rqN = "unsigned_post_of ''sms''"
            and wN = shop and errN = ?e and wN' = ?w
            and evS = service_env and rqS = "post_of ''signature''" and wS = shop
            and errS = "JsError ''Unexpected token in JSON: signature''" and wS' = shop
            and evM = service_env and rqM = "unsigned_post_of ''checkout_A''" and wM = shop
            and evT = throwing_service_env and rqT = "post_of ''checkout_A''" and wT = shop
            and errT = "JsError ''jwt malformed''"
            and evF = service_env and rqF = "forged_post_of ''checkout_A''" and wF = shop]
       unconfigured_production_try s n
  have a: "status (fst (commands_POST unconfigured_production_env (unsigned_post_of ''checkout_A'') shop)) = 500
   \<and> status (fst (orders_POST unconfigured_production_env (unsigned_post_of ''checkout_A'') shop)) = 500
   \<and> status (fst (inventory_POST unconfigured_production_env (unsigned_post_of ''checkout_A'') shop)) = 500
   \<and> status (fst (analytics_POST unconfigured_production_env (unsigned_post_of ''checkout_A'') shop)) = 500
   \<and> status (fst (notifications_POST unconfigured_notifications_env (unsigned_post_of ''sms'') shop)) = 500
   \<and> status (fst (os_POST service_env (post_of ''signature'') shop)) = 500
   \<and> status (fst (os_POST service_env (unsigned_post_of ''checkout_A'') shop)) = 401
   \<and> status (fst (os_POST throwing_service_env (post_of ''checkout_A'') shop)) = 401
   \<and> status (fst (os_POST service_env (forged_post_of ''checkout_A'') shop)) = 401"
    by (simp add: service_env_def throwing_service_env_def unsigned_post_of_def post_of_def
          forged_post_of_def signed_by_def)
  from C10_catch_classification
         [where evC = production_env and rqC = "unsigned_post_of ''checkout_A''"
            and wC = shop and errC = "JsError ''Missing upstash-signature header''" and wC' = shop,
          THEN conjunct1]
       missing_header_try [of "''checkout_A''" shop] y
  have b: "status (fst (commands_POST production_env (unsigned_post_of ''checkout_A'') shop)) = 401"
    by simp
  from a b show ?thesis by simp
qed

text \<open>
  Claim C10 as stated fails for the orders service: a signed body that does not
  parse makes \<^verbatim>\<open>JSON.parse\<close> throw an error whose message contains ``signature'',
  and the answer is 500.
\<close>

theorem C10_counterexample:
  "fst (os_try service_env (post_of ''signature'') shop)
     = Inl (JsError ''Unexpected token in JSON: signature'')
   \<and> is_signature_error (JsError ''Unexpected token in JSON: signature'')
   \<and> status (fst (os_POST service_env (post_of ''signature'') shop)) = 500"
proof -
  have s: "os_try service_env (post_of ''signature'') shop
             = (Inl (JsError ''Unexpected token in JSON: signature''), shop)"
    by (simp add: service_parse_failure parse_checkout_def)
  then show ?thesis
    by (simp add: os_POST_def route_throw os_catch_def)
qed

section \<open>Deliveries the consumers answer otherwise than specified\<close>

text \<open>
  On a signed delivery the commands consumer reads the type of the receiver's
  boolean, finds no case for it and answers 400: no transaction begins. The
  checkout handler is reached on the unsigned path of development, and in the
  orders service, which parses the body itself.
\<close>

lemma signed_checkout_is_not_processed:
  "fst (commands_POST production_env (post_of ''checkout_AB'') shop)
     = \<lparr>status = 400, json = ErrorResponse ''Unknown event type'' None\<rparr>
   \<and> orders (db (snd (commands_POST production_env (post_of ''checkout_AB'') shop))) = []
   \<and> timeline (effects (snd (commands_POST production_env (post_of ''checkout_AB'') shop))) = []"
  by code_simp

text \<open>
  Claim C1 asks that a checkout envelope delivered again after its first
  successful processing leaves one order row and one stock decrement per line
  item. Neither consumer of checkout commands consults the idempotency store.
  The second delivery of \<open>checkout_AB\<close>, unsigned to the commands consumer in
  development or signed to the orders service, is answered 200 like the first,
  and leaves a second order row, the stock of both products decremented twice,
  and no key for the event in the store.
\<close>

theorem C1_redelivery_repeats_the_order:
  "status (fst (commands_POST development_env (unsigned_post_of ''checkout_AB'') shop)) = 200
   \<and> status (fst (commands_POST development_env (unsigned_post_of ''checkout_AB'')
          (snd (commands_POST development_env (unsigned_post_of ''checkout_AB'') shop)))) = 200
   \<and> length (orders (db (snd (commands_POST development_env (unsigned_post_of ''checkout_AB'')
          (snd (commands_POST development_env (unsigned_post_of ''checkout_AB'') shop)))))) = 2
   \<and> length (orderItems (db (snd (commands_POST development_env (unsigned_post_of ''checkout_AB'')
          (snd (commands_POST development_env (unsigned_post_of ''checkout_AB'') shop)))))) = 4
   \<and> products (db (snd (commands_POST development_env (unsigned_post_of ''checkout_AB'')
          (snd (commands_POST development_env (unsigned_post_of ''checkout_AB'') shop))))) ''A''
        = Some 6
   \<and> products (db (snd (commands_POST development_env (unsigned_post_of ''checkout_AB'')
          (snd (commands_POST development_env (unsigned_post_of ''checkout_AB'') shop))))) ''B''
        = Some 3
   \<and> redis_keys (snd (commands_POST development_env (unsigned_post_of ''checkout_AB'')
          (snd (commands_POST development_env (unsigned_post_of ''checkout_AB'') shop))))
        (DEDUP_KEY_PREFIX @ ''evt-AB'') = None
   \<and> status (fst (os_POST service_env (post_of ''checkout_AB'') shop)) = 200
   \<and> status (fst (os_POST service_env (post_of ''checkout_AB'')
          (snd (os_POST service_env (post_of ''checkout_AB'') shop)))) = 200
   \<and> length (orders (db (snd (os_POST service_env (post_of ''checkout_AB'')
          (snd (os_POST service_env (post_of ''checkout_AB'') shop)))))) = 2
   \<and> products (db (snd (os_POST service_env (post_of ''checkout_AB'')
          (snd (os_POST service_env (post_of ''checkout_AB'') shop))))) ''A'' = Some 6
   \<and> products (db (snd (os_POST service_env (post_of ''checkout_AB'')
          (snd (os_POST service_env (post_of ''checkout_AB'') shop))))) ''B'' = Some 3
   \<and> redis_keys (snd (os_POST service_env (post_of ''checkout_AB'')
          (snd (os_POST service_env (post_of ''checkout_AB'') shop))))
        (DEDUP_KEY_PREFIX @ ''evt-AB'') = None"
  by code_simp

text \<open>
  Claim C4 asks for a 4xx answer to a body that does not parse. The orders
  service answers a signed body that does not parse with 500, and so does the
  commands consumer in development, where the body is parsed unverified.
\<close>

theorem C4_malformed_body_is_retried:
  "fst (os_POST service_env (post_of ''not json'') shop)
     = \<lparr>status = 500,
        json = ErrorResponse ''Failed to process webhook''
                 (Some ''Unexpected token in JSON: not json'')\<rparr>
   \<and> retry_worthy (fst (os_POST service_env (post_of ''not json'') shop))
   \<and> \<not> permanent_rejection (fst (os_POST service_env (post_of ''not json'') shop))
   \<and> status (fst (commands_POST development_env (unsigned_post_of ''not json'') shop)) = 500"
  by code_simp

text \<open>
  Claim C8 asks that an event of a type the topic does not understand is
  acknowledged and not retried. The notifications consumer answers a
  \<open>notification.sms\<close> event with 500 and marks nothing as processed, so every
  retry is answered the same: unsigned in development, where the type is the
  one the body carries, and signed in production, where the type is read from
  the receiver's boolean.
\<close>

theorem C8_unknown_notification_is_retried:
  "fst (notifications_POST development_notifications_env (unsigned_post_of ''sms'') shop)
     = \<lparr>status = 500,
        json = ErrorResponse ''Processing failed''
                 (Some ''Unknown event type: notification.sms'')\<rparr>
   \<and> retry_worthy
        (fst (notifications_POST development_notifications_env (unsigned_post_of ''sms'') shop))
   \<and> redis_keys
        (snd (notifications_POST development_notifications_env (unsigned_post_of ''sms'') shop))
        (DEDUP_KEY_PREFIX @ ''evt-sms'') = None
   \<and> fst (notifications_POST notifications_env (post_of ''sms'') shop)
     = \<lparr>status = 500,
        json = ErrorResponse ''Processing failed'' (Some ''Unknown event type: undefined'')\<rparr>
   \<and> retry_worthy (fst (notifications_POST notifications_env (post_of ''sms'') shop))
   \<and> redis_keys (snd (notifications_POST notifications_env (post_of ''sms'') shop))
        (DEDUP_KEY_PREFIX @ ''undefined'') = None"
  by code_simp

text \<open>
  Claim C9 asks that a checkout whose stock check fails in the transaction is
  rolled back and re-emitted once to the analytics target as a failed event.
  In the checkout handler a stock update that throws is rolled back and
  answered 500 and nothing is published; and there is no stock check: a
  checkout of two units of a product with one unit in stock commits, leaves
  the stock at minus one, and publishes the events of a created order. This is
  so unsigned at the commands consumer in development and signed at the orders
  service.
\<close>

theorem C9_no_dead_letter:
  "status (fst (commands_POST development_env (unsigned_post_of ''checkout_C'') shop_out_of_stock))
     = 500
   \<and> timeline (effects (snd (commands_POST development_env (unsigned_post_of ''checkout_C'')
                               shop_out_of_stock)))
       = [Begin, Rollback]
   \<and> orders (db (snd (commands_POST development_env (unsigned_post_of ''checkout_C'')
                        shop_out_of_stock))) = []
   \<and> products (db (snd (commands_POST development_env (unsigned_post_of ''checkout_C'')
                          shop_out_of_stock))) ''C'' = Some 1
   \<and> status (fst (commands_POST development_env (unsigned_post_of ''checkout_C'') shop)) = 200
   \<and> products (db (snd (commands_POST development_env (unsigned_post_of ''checkout_C'') shop)))
        ''C'' = Some (- 1)
   \<and> timeline (effects (snd (commands_POST development_env (unsigned_post_of ''checkout_C'') shop)))
       = [Begin, Published INVENTORY ''inventory.stock.updated'', Commit,
          Published ORDERS ''order.created'', Published NOTIFICATIONS ''notification.email'',
          Published ANALYTICS ''analytics.audit'']
   \<and> status (fst (os_POST service_env (post_of ''checkout_C'') shop_out_of_stock)) = 500
   \<and> timeline (effects (snd (os_POST service_env (post_of ''checkout_C'') shop_out_of_stock)))
       = [Begin, Rollback]
   \<and> status (fst (os_POST service_env (post_of ''checkout_C'') shop)) = 200
   \<and> products (db (snd (os_POST service_env (post_of ''checkout_C'') shop))) ''C'' = Some (- 1)
   \<and> timeline (effects (snd (os_POST service_env (post_of ''checkout_C'') shop)))
       = [Begin, Published INVENTORY ''inventory.stock.updated'', Commit,
          Published ORDERS ''order.created'', Published NOTIFICATIONS ''notification.email'',
          Published ANALYTICS ''analytics.audit'']"
  by code_simp

end
